theory Spec2Isabelle
  imports Complex_Main "HOL-Library.Word" "HOL-Library.Signed_Division"
begin

unbundle bit_operations_syntax

section \<open>Data model of the UART data handler\<close>

text \<open>
  The development embeds \<^verbatim>\<open>src/src/HalsDataHandlerClass.cpp\<close>: the Reader
  (\<^verbatim>\<open>readIncomingData\<close>, \<^verbatim>\<open>isMagicWord\<close>), the Sorter
  (\<^verbatim>\<open>sortIncomingData\<close>) and the Swap thread (\<^verbatim>\<open>syncedBufferSwap\<close>).

  Conventions.
  \<^item> A ping/pong buffer (\<^verbatim>\<open>std::vector<uint8_t>\<close>) is a list of bytes.
  \<^item> \<^verbatim>\<open>uint32_t\<close>, \<^verbatim>\<open>uint16_t\<close> and \<^verbatim>\<open>unsigned int\<close> are words; \<open>+\<close> wraps.
  \<^item> A \<^verbatim>\<open>float\<close> is the real number it denotes, and every \<^verbatim>\<open>float\<close> operation that
    feeds a branch of the code (the coordinates of a point and the two ratios of
    the angle filter) is the exact operation followed by the rounding \<open>fl32\<close> to
    binary32. Infinities and NaN only arise from a division by zero, which is
    written out where the code divides.
  \<^item> An uncaught C++ exception and every undefined behaviour the code can run
    into is a value of type \<open>error\<close>; a step that ends in one returns \<open>Inl\<close>.
  \<^item> \<^verbatim>\<open>memcpy\<close> into an integer field reads the bytes little-endian (the byte order
    of the sensor and of the hosts the driver runs on).
\<close>

type_synonym byte = "8 word"

datatype error =
    OutOfRange             \<comment> \<open>\<^verbatim>\<open>std::out_of_range\<close> thrown by \<^verbatim>\<open>currentBufp->at(currentDatap)\<close>\<close>
  | ReadPastEnd            \<comment> \<open>\<^verbatim>\<open>memcpy\<close> runs over the end of the vector: undefined\<close>
  | FloatToIntOverflow     \<comment> \<open>\<^verbatim>\<open>int xyzQFormat = pow(2, ...)\<close> does not fit an \<^verbatim>\<open>int\<close>: undefined\<close>
  | SignedOverflow         \<comment> \<open>\<^verbatim>\<open>tlvCount++\<close> or \<^verbatim>\<open>i++\<close> at \<^verbatim>\<open>INT_MAX\<close>: undefined\<close>
  | PointIndexOutOfBounds  \<comment> \<open>\<^verbatim>\<open>RScan->points[0]\<close> on an empty vector: undefined\<close>

text \<open>Sequencing of fallible steps: the first error ends the computation.\<close>

definition ebind :: "error + 'a \<Rightarrow> ('a \<Rightarrow> error + 'b) \<Rightarrow> error + 'b" where
  "ebind m f = (case m of Inl e \<Rightarrow> Inl e | Inr x \<Rightarrow> f x)"

datatype SorterState =
    READ_HEADER | CHECK_TLV_TYPE | READ_OBJ_STRUCT | READ_LOG_MAG_RANGE
  | READ_NOISE | READ_AZIMUTH | READ_DOPPLER | READ_STATS | SWAP_BUFFERS

text \<open>\<^verbatim>\<open>mmwData.header\<close> (\<^verbatim>\<open>MmwDemo_output_message_header\<close>).\<close>

record header =
  version :: "32 word"
  totalPacketLen :: "32 word"
  platform :: "32 word"
  frameNumber :: "32 word"
  timeCpuCycles :: "32 word"
  numDetectedObj :: "32 word"
  numTLVs :: "32 word"
  subFrameNumber :: "32 word"

text \<open>
  One element of \<^verbatim>\<open>RScan->points\<close>. The field \<^verbatim>\<open>range\<close> is \<open>range_m\<close> here, since
  \<open>range\<close> is the image of a function in HOL.
\<close>

record RadarPoint =
  x :: real
  y :: real
  z :: real
  intensity :: real
  range_m :: real
  doppler :: real

text \<open>The message handed to \<^verbatim>\<open>DataUARTHandler_pub.publish\<close>.\<close>

record cloud =
  frame_id :: string
  height :: nat
  width :: nat
  is_dense :: bool
  points :: "RadarPoint list"

text \<open>
  What the Sorter reads but never writes: the members of \<^verbatim>\<open>DataUARTHandler\<close> set
  through the setters and, with them, the one function of the C library whose
  value decides a branch. \<open>tan_deg d\<close> is the \<^verbatim>\<open>double\<close> that the expression
  \<^verbatim>\<open>tan(d * M_PI / 180.0)\<close> of lines 423 and 432 evaluates to for the \<^verbatim>\<open>int\<close> \<open>d\<close>. The
  library is not part of the repository and its last bit differs from one
  implementation to the next, so the function is a parameter and nothing is
  assumed of it.
\<close>

record RadarConfig =
  numDopplerBins :: int
  rangeIdxToMeters :: real
  dopplerResolutionToMps :: real
  maxAllowedElevationAngleDeg :: int
  maxAllowedAzimuthAngleDeg :: int
  tan_deg :: "int \<Rightarrow> real"

text \<open>
  The locals of \<^verbatim>\<open>sortIncomingData\<close> together with \<^verbatim>\<open>mmwData\<close> and the points of
  \<^verbatim>\<open>RScan\<close>, all of which live across frames.
\<close>

record sorter =
  sorterState :: SorterState
  currentDatap :: "32 word"
  tlvCount :: int
  tlvType :: "32 word"
  tlvLen :: "32 word"
  hdr :: header
  numObjOut :: "16 word"
  xyzQFormat :: "16 word"
  RScan_points :: "RadarPoint list"

section \<open>Reading fields from the drain buffer\<close>

text \<open>
  \<^verbatim>\<open>memcpy(&field, &currentBufp->at(currentDatap), n)\<close>: \<^verbatim>\<open>at\<close> checks the first
  byte only and throws if the cursor is not below the size; the copy of the
  remaining \<open>n - 1\<close> bytes is unchecked.
\<close>

definition memcpy_at :: "byte list \<Rightarrow> 32 word \<Rightarrow> nat \<Rightarrow> error + byte list" where
  "memcpy_at buf p n =
     (if length buf \<le> unat p then Inl OutOfRange
      else if length buf < unat p + n then Inl ReadPastEnd
      else Inr (take n (drop (unat p) buf)))"

fun le_word :: "byte list \<Rightarrow> 'a::len word" where
  "le_word [] = 0"
| "le_word (b # bs) = ucast b + push_bit 8 (le_word bs)"

definition get_u32 :: "byte list \<Rightarrow> 32 word \<Rightarrow> error + 32 word" where
  "get_u32 buf p = ebind (memcpy_at buf p 4) (\<lambda>bs. Inr (le_word bs))"

definition get_u16 :: "byte list \<Rightarrow> 32 word \<Rightarrow> error + 16 word" where
  "get_u16 buf p = ebind (memcpy_at buf p 2) (\<lambda>bs. Inr (le_word bs))"

section \<open>The Sorter: \<^verbatim>\<open>READ_HEADER\<close>\<close>

text \<open>Lines 348-360: the header size the Sorter expects.\<close>

definition headerSize :: "32 word \<Rightarrow> 32 word \<Rightarrow> 32 word" where
  "headerSize ver plat =
     (if (drop_bit 24 ver AND 0xFF) < 1 \<or> (drop_bit 16 ver AND 0xFF) < 1 then 28
      else if plat AND 0xFFFF = 0x1443 then 28
      else 32)"

text \<open>Lines 335-345: \<^verbatim>\<open>version\<close>, \<^verbatim>\<open>totalPacketLen\<close> and \<^verbatim>\<open>platform\<close>, 4 bytes each.\<close>

definition read_version_len_platform :: "byte list \<Rightarrow> sorter \<Rightarrow> error + sorter" where
  "read_version_len_platform buf st =
     ebind (get_u32 buf (currentDatap st)) (\<lambda>v.
     ebind (get_u32 buf (currentDatap st + 4)) (\<lambda>len.
     ebind (get_u32 buf (currentDatap st + 8)) (\<lambda>plat.
       Inr (st\<lparr>hdr := (hdr st)\<lparr>version := v, totalPacketLen := len, platform := plat\<rparr>,
                currentDatap := currentDatap st + 12\<rparr>))))"

text \<open>
  Lines 367-381: \<^verbatim>\<open>frameNumber\<close>, \<^verbatim>\<open>timeCpuCycles\<close>, \<^verbatim>\<open>numDetectedObj\<close> and
  \<^verbatim>\<open>numTLVs\<close>, 4 bytes each.
\<close>

definition read_frame_fields :: "byte list \<Rightarrow> sorter \<Rightarrow> error + sorter" where
  "read_frame_fields buf st =
     ebind (get_u32 buf (currentDatap st)) (\<lambda>fn.
     ebind (get_u32 buf (currentDatap st + 4)) (\<lambda>cyc.
     ebind (get_u32 buf (currentDatap st + 8)) (\<lambda>nobj.
     ebind (get_u32 buf (currentDatap st + 12)) (\<lambda>ntlv.
       Inr (st\<lparr>hdr := (hdr st)\<lparr>frameNumber := fn, timeCpuCycles := cyc,
                                 numDetectedObj := nobj, numTLVs := ntlv\<rparr>,
                currentDatap := currentDatap st + 16\<rparr>)))))"

text \<open>Lines 383-388: \<^verbatim>\<open>subFrameNumber\<close>, read unless the platform is the XWR1443.\<close>

definition read_subFrameNumber :: "byte list \<Rightarrow> sorter \<Rightarrow> error + sorter" where
  "read_subFrameNumber buf st =
     (if platform (hdr st) AND 0xFFFF \<noteq> 0x1443
      then ebind (get_u32 buf (currentDatap st)) (\<lambda>sub.
             Inr (st\<lparr>hdr := (hdr st)\<lparr>subFrameNumber := sub\<rparr>,
                      currentDatap := currentDatap st + 4\<rparr>))
      else Inr st)"

text \<open>
  Lines 326-397, the whole state. The size of the buffer is at least 12 where
  it is compared with \<^verbatim>\<open>totalPacketLen\<close>, so \<^verbatim>\<open>size() - 4\<close> does not wrap.
\<close>

definition read_header :: "byte list \<Rightarrow> sorter \<Rightarrow> error + sorter" where
  "read_header buf st =
     (if length buf < 12 then Inr (st\<lparr>sorterState := SWAP_BUFFERS\<rparr>)
      else
        ebind (read_version_len_platform buf st) (\<lambda>st1.
          if length buf < unat (headerSize (version (hdr st1)) (platform (hdr st1)))
          then Inr (st1\<lparr>sorterState := SWAP_BUFFERS\<rparr>)
          else
            ebind (read_frame_fields buf st1) (\<lambda>st2.
            ebind (read_subFrameNumber buf st2) (\<lambda>st3.
              if unat (totalPacketLen (hdr st3)) = length buf - 4
              then Inr (st3\<lparr>sorterState := CHECK_TLV_TYPE\<rparr>)
              else Inr (st3\<lparr>sorterState := SWAP_BUFFERS\<rparr>)))))"

section \<open>The Sorter: \<^verbatim>\<open>CHECK_TLV_TYPE\<close> and the skipped payloads\<close>

text \<open>
  Modelled from the spec: the enumeration \<^verbatim>\<open>MmwDemo_Output_TLV_Types\<close> is declared
  in a header that is not under \<^verbatim>\<open>src/\<close>. Section 4.2 of the spec numbers the
  payload kinds 0 (null) to 6 (stats); \<^verbatim>\<open>MMWDEMO_OUTPUT_MSG_MAX\<close> closes the
  enumeration and takes the next value.
\<close>

definition MMWDEMO_OUTPUT_MSG_NULL :: "32 word" where
  "MMWDEMO_OUTPUT_MSG_NULL = 0"

definition MMWDEMO_OUTPUT_MSG_DETECTED_POINTS :: "32 word" where
  "MMWDEMO_OUTPUT_MSG_DETECTED_POINTS = 1"

definition MMWDEMO_OUTPUT_MSG_RANGE_PROFILE :: "32 word" where
  "MMWDEMO_OUTPUT_MSG_RANGE_PROFILE = 2"

definition MMWDEMO_OUTPUT_MSG_NOISE_PROFILE :: "32 word" where
  "MMWDEMO_OUTPUT_MSG_NOISE_PROFILE = 3"

definition MMWDEMO_OUTPUT_MSG_AZIMUTH_STATIC_HEAT_MAP :: "32 word" where
  "MMWDEMO_OUTPUT_MSG_AZIMUTH_STATIC_HEAT_MAP = 4"

definition MMWDEMO_OUTPUT_MSG_RANGE_DOPPLER_HEAT_MAP :: "32 word" where
  "MMWDEMO_OUTPUT_MSG_RANGE_DOPPLER_HEAT_MAP = 5"

definition MMWDEMO_OUTPUT_MSG_STATS :: "32 word" where
  "MMWDEMO_OUTPUT_MSG_STATS = 6"

definition MMWDEMO_OUTPUT_MSG_MAX :: "32 word" where
  "MMWDEMO_OUTPUT_MSG_MAX = 7"

text \<open>Lines 694-736: the \<^verbatim>\<open>switch(tlvType)\<close>; \<^verbatim>\<open>default\<close> leaves the state as it is.\<close>

definition tlv_dispatch :: "32 word \<Rightarrow> SorterState \<Rightarrow> SorterState" where
  "tlv_dispatch ty s =
     (if ty = MMWDEMO_OUTPUT_MSG_NULL then s
      else if ty = MMWDEMO_OUTPUT_MSG_DETECTED_POINTS then READ_OBJ_STRUCT
      else if ty = MMWDEMO_OUTPUT_MSG_RANGE_PROFILE then READ_LOG_MAG_RANGE
      else if ty = MMWDEMO_OUTPUT_MSG_NOISE_PROFILE then READ_NOISE
      else if ty = MMWDEMO_OUTPUT_MSG_AZIMUTH_STATIC_HEAT_MAP then READ_AZIMUTH
      else if ty = MMWDEMO_OUTPUT_MSG_RANGE_DOPPLER_HEAT_MAP then READ_DOPPLER
      else if ty = MMWDEMO_OUTPUT_MSG_STATS then READ_STATS
      else if ty = MMWDEMO_OUTPUT_MSG_MAX then READ_HEADER
      else s)"

text \<open>
  Lines 669-739. \<^verbatim>\<open>tlvCount\<close> is an \<^verbatim>\<open>int\<close> compared with the unsigned
  \<^verbatim>\<open>numTLVs\<close>, so it is converted to unsigned; the post-increment happens on
  both branches.
\<close>

definition check_tlv_type :: "byte list \<Rightarrow> sorter \<Rightarrow> error + sorter" where
  "check_tlv_type buf st =
     (if tlvCount st \<ge> 2 ^ 31 - 1 then Inl SignedOverflow
      else
        let st1 = st\<lparr>tlvCount := tlvCount st + 1\<rparr>
        in if (word_of_int (tlvCount st) :: 32 word) \<ge> numTLVs (hdr st)
           then Inr (st1\<lparr>sorterState := SWAP_BUFFERS\<rparr>)
           else
             ebind (get_u32 buf (currentDatap st1)) (\<lambda>ty.
             ebind (get_u32 buf (currentDatap st1 + 4)) (\<lambda>len.
               Inr (st1\<lparr>tlvType := ty, tlvLen := len,
                        currentDatap := currentDatap st1 + 8,
                        sorterState := tlv_dispatch ty (sorterState st1)\<rparr>))))"

text \<open>
  Lines 584-667, the same code five times: an empty counting loop
  \<^verbatim>\<open>while (i++ < tlvLen - 1)\<close> over an \<^verbatim>\<open>int i\<close>, then the cursor skips the
  payload. The last \<^verbatim>\<open>i++\<close> runs at \<open>i = tlvLen - 1\<close> (unsigned), which overflows
  the \<^verbatim>\<open>int\<close> when that is \<^verbatim>\<open>INT_MAX\<close> or more.
\<close>

definition skip_payload :: "sorter \<Rightarrow> error + sorter" where
  "skip_payload st =
     (if tlvLen st - 1 \<ge> 0x7FFFFFFF then Inl SignedOverflow
      else Inr (st\<lparr>currentDatap := currentDatap st + tlvLen st,
                   sorterState := CHECK_TLV_TYPE\<rparr>))"

section \<open>Single-precision arithmetic\<close>

text \<open>
  The rounding of a real number to binary32: 24 significant bits, to nearest,
  ties to the even significand, with the fixed spacing \<open>2 ^ (- 149)\<close> below
  \<open>2 ^ (- 126)\<close> (the subnormal numbers).

  \<open>exponent a\<close> is the \<open>e\<close> with \<open>2 ^ e \<le> a < 2 ^ (e + 1)\<close>, found by halving or
  doubling, and never below \<open>- 126\<close>. The search stops at 127, the largest
  exponent of binary32: a value of \<open>2 ^ 128\<close> or more would be an infinity. No
  coordinate and no ratio of a point gets there: a coordinate is 0 or lies
  between \<open>2 ^ (- 30)\<close> and \<open>2 ^ 32\<close> in magnitude (a sum of two 16-bit fields, one
  of them times 65536, over a power of two that fits an \<^verbatim>\<open>int\<close>), so the squares,
  their sum and the two quotients stay below \<open>2 ^ 125\<close>.
\<close>

fun halvings :: "nat \<Rightarrow> real \<Rightarrow> nat" where
  "halvings n a = (if n = 0 \<or> a < 2 then 0 else Suc (halvings (n - 1) (a / 2)))"

fun doublings :: "nat \<Rightarrow> real \<Rightarrow> nat" where
  "doublings n a = (if n = 0 \<or> 1 \<le> a then 0 else Suc (doublings (n - 1) (a * 2)))"

declare halvings.simps [simp del] doublings.simps [simp del]

definition exponent :: "real \<Rightarrow> int" where
  "exponent a = (if 1 \<le> a then int (halvings 127 a) else - int (doublings 126 a))"

definition pow2 :: "int \<Rightarrow> real" where
  "pow2 k = (if 0 \<le> k then 2 ^ nat k else 1 / 2 ^ nat (- k))"

text \<open>The nearest integer, the even one of the two when \<open>m\<close> lies half-way.\<close>

definition round_even :: "real \<Rightarrow> int" where
  "round_even m =
     (let f = \<lfloor>m\<rfloor>; d = m - real_of_int f
      in if d < 1 / 2 then f else if 1 / 2 < d then f + 1 else if even f then f else f + 1)"

definition fl32 :: "real \<Rightarrow> real" where
  "fl32 r = (let u = pow2 (exponent \<bar>r\<bar> - 23) in real_of_int (round_even (r / u)) * u)"

section \<open>The Sorter: \<^verbatim>\<open>READ_OBJ_STRUCT\<close>\<close>

text \<open>
  Modelled from the spec: the field types of \<^verbatim>\<open>mmwData.objOut\<close> are declared in a
  header that is not under \<^verbatim>\<open>src/\<close>; the spec (section 3) makes the six fields of
  a record signed 16-bit words. \<open>raw16\<close> is the conversion of such a field to
  \<^verbatim>\<open>float\<close>, which is exact.
\<close>

definition raw16 :: "16 word \<Rightarrow> real" where
  "raw16 w = real_of_int (sint w)"

text \<open>
  Line 479: \<^verbatim>\<open>int xyzQFormat = pow(2, mmwData.xyzQFormat)\<close>. The conversion of the
  \<^verbatim>\<open>double\<close> to \<^verbatim>\<open>int\<close> is only defined when the power fits.
\<close>

definition pow2_int :: "16 word \<Rightarrow> error + int" where
  "pow2_int q = (if unat q < 31 then Inr (2 ^ unat q) else Inl FloatToIntOverflow)"

text \<open>
  Lines 495-497, the body of the loop over \<^verbatim>\<open>data[0..2]\<close>. \<^verbatim>\<open>data[j]\<close> is a
  \<^verbatim>\<open>float\<close>, so each of the four operations is one in binary32; the two \<^verbatim>\<open>int\<close>
  operands (65536 and the divisor) are converted to \<^verbatim>\<open>float\<close> first.
\<close>

definition qformat_to_float :: "16 word \<Rightarrow> int \<Rightarrow> real \<Rightarrow> real" where
  "qformat_to_float rangeIdx q d =
     (let d' = (if d > 32767 then fl32 (d - 65536) else d)
      in fl32 (fl32 (raw16 rangeIdx + fl32 (d' * 65536)) / fl32 (real_of_int q)))"

text \<open>
  Lines 472-542: one detected object, from the six raw fields to the point.
  The intensity, the range and the Doppler velocity are left as the real
  numbers the three formulas denote: the types of \<^verbatim>\<open>rangeIdxToMeters\<close> and
  \<^verbatim>\<open>dopplerResolutionToMps\<close> and the overload of \<^verbatim>\<open>log10\<close> are fixed outside the
  repository, and no branch of the code reads these three fields.
\<close>

definition convert_obj ::
  "RadarConfig \<Rightarrow> int \<Rightarrow> 16 word \<Rightarrow> 16 word \<Rightarrow> 16 word \<Rightarrow> 16 word \<Rightarrow> 16 word \<Rightarrow> 16 word
     \<Rightarrow> RadarPoint" where
  "convert_obj cfg q rangeIdx dopplerIdx peakVal xq yq zq =
     (let d4 = raw16 rangeIdx * rangeIdxToMeters cfg;
          d5 = raw16 dopplerIdx;
          d5' = (if d5 > real_of_int (numDopplerBins cfg sdiv 2 - 1)
                 then d5 - real_of_int (numDopplerBins cfg) else d5)
                * dopplerResolutionToMps cfg;
          d3 = 10 * log 10 (raw16 peakVal + 1);
          d0 = qformat_to_float rangeIdx q (raw16 xq);
          d1 = qformat_to_float rangeIdx q (raw16 yq);
          d2 = qformat_to_float rangeIdx q (raw16 zq)
      in \<lparr>x = d1, y = - d0, z = d2, intensity = d3, range_m = d4, doppler = d5'\<rparr>)"

text \<open>Lines 447-542: read the six fields of one record at the cursor and convert.\<close>

definition read_obj :: "RadarConfig \<Rightarrow> byte list \<Rightarrow> 16 word \<Rightarrow> 32 word \<Rightarrow> error + RadarPoint" where
  "read_obj cfg buf q c =
     ebind (get_u16 buf c) (\<lambda>rangeIdx.
     ebind (get_u16 buf (c + 2)) (\<lambda>dopplerIdx.
     ebind (get_u16 buf (c + 4)) (\<lambda>peakVal.
     ebind (get_u16 buf (c + 6)) (\<lambda>xq.
     ebind (get_u16 buf (c + 8)) (\<lambda>yq.
     ebind (get_u16 buf (c + 10)) (\<lambda>zq.
     ebind (pow2_int q) (\<lambda>q2.
       Inr (convert_obj cfg q2 rangeIdx dopplerIdx peakVal xq yq zq))))))))"

text \<open>
  Lines 420-437: the two ratios; \<open>- 1\<close> switches a filter off. Both locals are
  \<^verbatim>\<open>float\<close>: the \<^verbatim>\<open>double\<close> that \<^verbatim>\<open>tan\<close> returns is rounded when it is stored (lines
  423 and 432), and line 424 squares the stored value in binary32.
\<close>

definition maxElevationAngleRatioSquared :: "RadarConfig \<Rightarrow> real" where
  "maxElevationAngleRatioSquared cfg =
     (if maxAllowedElevationAngleDeg cfg \<ge> 0 \<and> maxAllowedElevationAngleDeg cfg < 90
      then (let t = fl32 (tan_deg cfg (maxAllowedElevationAngleDeg cfg)) in fl32 (t * t))
      else - 1)"

definition maxAzimuthAngleRatio :: "RadarConfig \<Rightarrow> real" where
  "maxAzimuthAngleRatio cfg =
     (if maxAllowedAzimuthAngleDeg cfg \<ge> 0 \<and> maxAllowedAzimuthAngleDeg cfg < 90
      then fl32 (tan_deg cfg (maxAllowedAzimuthAngleDeg cfg))
      else - 1)"

text \<open>
  Lines 549-551: \<^verbatim>\<open>z * z / (x * x + y * y)\<close> on the \<^verbatim>\<open>float\<close> fields of the point, five
  operations in binary32.
\<close>

definition elevationRatio :: "RadarPoint \<Rightarrow> real" where
  "elevationRatio p =
     fl32 (fl32 (z p * z p) / fl32 (fl32 (x p * x p) + fl32 (y p * y p)))"

text \<open>Line 553: \<^verbatim>\<open>fabs(y / x)\<close>, one division in binary32; \<^verbatim>\<open>fabs\<close> is exact.\<close>

definition azimuthRatio :: "RadarPoint \<Rightarrow> real" where
  "azimuthRatio p = \<bar>fl32 (y p / x p)\<bar>"

text \<open>
  Lines 548-555: the condition under which a point is kept. With a divisor
  that is 0 the quotient of line 549 is the positive infinity or a NaN (the
  dividend is a square), and so is \<^verbatim>\<open>fabs(y / x)\<close>: neither is below a ratio, the
  comparison is false.
\<close>

definition keep_point :: "real \<Rightarrow> real \<Rightarrow> RadarPoint \<Rightarrow> bool" where
  "keep_point er ar p =
     ((er = - 1 \<or>
         (fl32 (fl32 (x p * x p) + fl32 (y p * y p)) \<noteq> 0 \<and> elevationRatio p < er)) \<and>
      (ar = - 1 \<or> (x p \<noteq> 0 \<and> azimuthRatio p < ar)) \<and>
      x p \<noteq> 0)"

text \<open>
  Lines 445-567: the loop. \<open>i\<close> is the write index (an \<^verbatim>\<open>int\<close> that only counts up
  from 0 and stays below \<^verbatim>\<open>numObjOut\<close>, so a natural number), \<open>n\<close> is
  \<^verbatim>\<open>mmwData.numObjOut\<close>, \<open>pts\<close> is \<^verbatim>\<open>RScan->points\<close>, \<open>c\<close> the cursor. The point is
  written at index \<open>i\<close> before the test; a dropped point is overwritten by the
  next one.
\<close>

function obj_loop ::
  "RadarConfig \<Rightarrow> byte list \<Rightarrow> 16 word \<Rightarrow> real \<Rightarrow> real \<Rightarrow> nat \<Rightarrow> 16 word \<Rightarrow> RadarPoint list
     \<Rightarrow> 32 word \<Rightarrow> error + (16 word \<times> RadarPoint list \<times> 32 word)" where
  "obj_loop cfg buf q er ar i n pts c =
     (if i < unat n then
        (case read_obj cfg buf q c of
           Inl e \<Rightarrow> Inl e
         | Inr p \<Rightarrow>
             if keep_point er ar p
             then obj_loop cfg buf q er ar (i + 1) n (pts[i := p]) (c + 12)
             else obj_loop cfg buf q er ar i (n - 1) (pts[i := p]) (c + 12))
      else Inr (n, pts, c))"
  by pat_completeness auto
termination
proof (relation "measure (\<lambda>(cfg, buf, q, er, ar, i, n, pts, c). unat n - i)", goal_cases)
  case 1
  show ?case by simp
next
  case (2 cfg buf q er ar i n pts c p)
  then show ?case by simp
next
  case (3 cfg buf q er ar i n pts c p)
  then have "n \<noteq> 0" by auto
  then have "unat (n - 1) = unat n - 1"
    by (simp add: unat_minus_one)
  with 3 show ?case by simp
qed

declare obj_loop.simps [simp del]

text \<open>
  \<^verbatim>\<open>points.resize(k)\<close>: a shorter vector is cut, a longer one is filled with
  value-initialised points (their fields are overwritten before they are read).
\<close>

definition default_point :: RadarPoint where
  "default_point = \<lparr>x = 0, y = 0, z = 0, intensity = 0, range_m = 0, doppler = 0\<rparr>"

definition resize :: "nat \<Rightarrow> RadarPoint list \<Rightarrow> RadarPoint list" where
  "resize k pts = take k pts @ replicate (k - length pts) default_point"

text \<open>
  Lines 399-571: \<^verbatim>\<open>READ_OBJ_STRUCT\<close> up to and including the second resize, that is,
  everything before the log statement that reads \<^verbatim>\<open>RScan->points[0]\<close>.
\<close>

definition decode_objects :: "RadarConfig \<Rightarrow> byte list \<Rightarrow> sorter \<Rightarrow> error + sorter" where
  "decode_objects cfg buf st =
     ebind (get_u16 buf (currentDatap st)) (\<lambda>n0.
     ebind (get_u16 buf (currentDatap st + 2)) (\<lambda>q.
     ebind (obj_loop cfg buf q (maxElevationAngleRatioSquared cfg) (maxAzimuthAngleRatio cfg)
              0 n0 (resize (unat n0) (RScan_points st)) (currentDatap st + 4)) (\<lambda>(n, pts, c).
       Inr (st\<lparr>numObjOut := n, xyzQFormat := q, currentDatap := c,
                RScan_points := resize (unat n) pts\<rparr>))))"

text \<open>The cloud as it is when \<^verbatim>\<open>publish\<close> is called on line 578.\<close>

definition RScan :: "sorter \<Rightarrow> cloud" where
  "RScan st = \<lparr>frame_id = ''base_radar_link'', height = 1, width = unat (numObjOut st),
               is_dense = True, points = RScan_points st\<rparr>"

text \<open>
  Lines 399-582: the whole state. The log statement on lines 572-574 reads
  \<^verbatim>\<open>RScan->points[0]\<close> with the unchecked \<^verbatim>\<open>operator[]\<close>, whatever the size.
\<close>

definition read_obj_struct :: "RadarConfig \<Rightarrow> byte list \<Rightarrow> sorter \<Rightarrow> error + sorter \<times> cloud" where
  "read_obj_struct cfg buf st =
     ebind (decode_objects cfg buf st) (\<lambda>st1.
       if RScan_points st1 = [] then Inl PointIndexOutOfBounds
       else Inr (st1\<lparr>sorterState := CHECK_TLV_TYPE\<rparr>, RScan st1))"

section \<open>The Sorter: one pass of the state machine, one frame, all frames\<close>

text \<open>
  One iteration of \<^verbatim>\<open>switch(sorterState)\<close> on the drain buffer \<open>buf\<close>, with the
  clouds it publishes. \<^verbatim>\<open>SWAP_BUFFERS\<close> hands the buffer back and is the next
  definition.
\<close>

definition sorter_step :: "RadarConfig \<Rightarrow> byte list \<Rightarrow> sorter \<Rightarrow> error + sorter \<times> cloud list" where
  "sorter_step cfg buf st =
     (case sorterState st of
        READ_HEADER \<Rightarrow> ebind (read_header buf st) (\<lambda>st'. Inr (st', []))
      | CHECK_TLV_TYPE \<Rightarrow> ebind (check_tlv_type buf st) (\<lambda>st'. Inr (st', []))
      | READ_OBJ_STRUCT \<Rightarrow> ebind (read_obj_struct cfg buf st) (\<lambda>(st', c). Inr (st', [c]))
      | READ_LOG_MAG_RANGE \<Rightarrow> ebind (skip_payload st) (\<lambda>st'. Inr (st', []))
      | READ_NOISE \<Rightarrow> ebind (skip_payload st) (\<lambda>st'. Inr (st', []))
      | READ_AZIMUTH \<Rightarrow> ebind (skip_payload st) (\<lambda>st'. Inr (st', []))
      | READ_DOPPLER \<Rightarrow> ebind (skip_payload st) (\<lambda>st'. Inr (st', []))
      | READ_STATS \<Rightarrow> ebind (skip_payload st) (\<lambda>st'. Inr (st', []))
      | SWAP_BUFFERS \<Rightarrow> Inr (st, []))"

text \<open>
  Lines 741-763, as the Sorter sees them: it gives the drain buffer back, waits
  for the Swap thread, and starts on the new drain buffer with the cursor and
  the TLV count reset.
\<close>

definition swap_buffers :: "sorter \<Rightarrow> sorter" where
  "swap_buffers st = st\<lparr>currentDatap := 0, tlvCount := 0, sorterState := READ_HEADER\<rparr>"

text \<open>
  The Sorter on one drain buffer: the \<^verbatim>\<open>while\<close> loop from the state it is in until
  it reaches \<^verbatim>\<open>SWAP_BUFFERS\<close> or dies of an error, with the clouds published on
  the way (those published before an error stay published).
\<close>

function drain :: "RadarConfig \<Rightarrow> byte list \<Rightarrow> sorter \<Rightarrow> cloud list \<times> (error + sorter)" where
  "drain cfg buf st =
     (if sorterState st = SWAP_BUFFERS then ([], Inr st)
      else
        (case sorter_step cfg buf st of
           Inl e \<Rightarrow> ([], Inl e)
         | Inr (st', out) \<Rightarrow> (case drain cfg buf st' of (cs, r) \<Rightarrow> (out @ cs, r))))"
  by pat_completeness auto

text \<open>
  The loop ends: every pass through \<^verbatim>\<open>CHECK_TLV_TYPE\<close> counts \<^verbatim>\<open>tlvCount\<close> up,
  which is bounded by \<^verbatim>\<open>INT_MAX\<close>, and every other state leads there or to
  \<^verbatim>\<open>SWAP_BUFFERS\<close>.
\<close>

definition sorter_measure :: "sorter \<Rightarrow> nat" where
  "sorter_measure st =
     2 * nat (2 ^ 31 - tlvCount st) +
     (if sorterState st = CHECK_TLV_TYPE \<or> sorterState st = SWAP_BUFFERS then 0 else 1)"

lemma ebind_Inr: "ebind m f = Inr r \<longleftrightarrow> (\<exists>v. m = Inr v \<and> f v = Inr r)"
  by (cases m) (auto simp: ebind_def)

lemma ebind_Inl: "ebind m f = Inl e \<longleftrightarrow> m = Inl e \<or> (\<exists>v. m = Inr v \<and> f v = Inl e)"
  by (cases m) (auto simp: ebind_def)

lemma read_version_len_platform_keeps:
  "read_version_len_platform buf st = Inr st' \<Longrightarrow>
     tlvCount st' = tlvCount st \<and> sorterState st' = sorterState st"
  by (auto simp: read_version_len_platform_def ebind_Inr)

lemma read_frame_fields_keeps:
  "read_frame_fields buf st = Inr st' \<Longrightarrow>
     tlvCount st' = tlvCount st \<and> sorterState st' = sorterState st"
  by (auto simp: read_frame_fields_def ebind_Inr)

lemma read_subFrameNumber_keeps:
  "read_subFrameNumber buf st = Inr st' \<Longrightarrow>
     tlvCount st' = tlvCount st \<and> sorterState st' = sorterState st"
  by (auto simp: read_subFrameNumber_def ebind_Inr split: if_splits)

lemma read_header_next:
  "read_header buf st = Inr st' \<Longrightarrow>
     tlvCount st' = tlvCount st \<and>
     (sorterState st' = CHECK_TLV_TYPE \<or> sorterState st' = SWAP_BUFFERS)"
  by (auto simp: read_header_def ebind_Inr split: if_splits
      dest!: read_version_len_platform_keeps read_frame_fields_keeps read_subFrameNumber_keeps)

lemma check_tlv_type_counts:
  "check_tlv_type buf st = Inr st' \<Longrightarrow>
     tlvCount st' = tlvCount st + 1 \<and> tlvCount st < 2 ^ 31 - 1"
  by (auto simp: check_tlv_type_def ebind_Inr Let_def split: if_splits)

lemma skip_payload_next:
  "skip_payload st = Inr st' \<Longrightarrow>
     tlvCount st' = tlvCount st \<and> sorterState st' = CHECK_TLV_TYPE"
  by (auto simp: skip_payload_def split: if_splits)

lemma decode_objects_keeps:
  "decode_objects cfg buf st = Inr st' \<Longrightarrow> tlvCount st' = tlvCount st"
  by (auto simp: decode_objects_def ebind_Inr split: if_splits)

lemma read_obj_struct_next:
  "read_obj_struct cfg buf st = Inr (st', c) \<Longrightarrow>
     tlvCount st' = tlvCount st \<and> sorterState st' = CHECK_TLV_TYPE"
  by (auto simp: read_obj_struct_def ebind_Inr dest: decode_objects_keeps split: if_splits)

lemma sorter_step_measure:
  "sorterState st \<noteq> SWAP_BUFFERS \<Longrightarrow> sorter_step cfg buf st = Inr (st', out) \<Longrightarrow>
     sorter_measure st' < sorter_measure st"
  by (cases "sorterState st")
     (auto simp: sorter_step_def sorter_measure_def ebind_Inr
       dest!: read_header_next check_tlv_type_counts skip_payload_next read_obj_struct_next)

termination drain
  by (relation "measure (\<lambda>(cfg, buf, st). sorter_measure st)")
     (auto simp: sorter_step_measure)

declare drain.simps [simp del]

text \<open>
  The Sorter before the first frame (lines 302-311). \<^verbatim>\<open>mmwData\<close> is not
  initialised by the code; every field of it is written before it is read.
\<close>

definition sorter_init :: sorter where
  "sorter_init =
     \<lparr>sorterState = READ_HEADER, currentDatap = 0, tlvCount = 0,
      tlvType = MMWDEMO_OUTPUT_MSG_NULL, tlvLen = 0,
      hdr = \<lparr>version = 0, totalPacketLen = 0, platform = 0, frameNumber = 0,
             timeCpuCycles = 0, numDetectedObj = 0, numTLVs = 0, subFrameNumber = 0\<rparr>,
      numObjOut = 0, xyzQFormat = 0, RScan_points = []\<rparr>"

text \<open>
  \<^verbatim>\<open>sortIncomingData\<close> on the drain buffers it is handed, in order: each is
  drained, then \<^verbatim>\<open>SWAP_BUFFERS\<close> moves on to the next. An error ends the thread
  (and the process).
\<close>

fun sortIncomingData ::
  "RadarConfig \<Rightarrow> sorter \<Rightarrow> byte list list \<Rightarrow> cloud list \<times> (error + sorter)" where
  "sortIncomingData cfg st [] = ([], Inr st)"
| "sortIncomingData cfg st (buf # bufs) =
     (case drain cfg buf st of
        (cs, Inl e) \<Rightarrow> (cs, Inl e)
      | (cs, Inr st') \<Rightarrow>
          (case sortIncomingData cfg (swap_buffers st') bufs of (cs', r) \<Rightarrow> (cs @ cs', r)))"

section \<open>The Reader\<close>

text \<open>
  \<^verbatim>\<open>mySerialObject.read(&last8Bytes[7], 1)\<close> delivers one byte, or nothing when
  the 100 ms timeout expires; the code does not look at the count it returns.
  The serial input is the list of these outcomes.
\<close>

type_synonym serial = "byte option list"

text \<open>
  Lines 165-172 and 182-189: the window is shifted by one place and the byte
  read is stored at position 7. After a timeout position 7 keeps what it had.
\<close>

definition shift_in :: "byte list \<Rightarrow> byte option \<Rightarrow> byte list" where
  "shift_in w r = tl w @ [case r of None \<Rightarrow> last w | Some b \<Rightarrow> b]"

text \<open>
  Lines 241-261. \<^verbatim>\<open>magicWord\<close> is a constant member declared in a header that is
  not under \<^verbatim>\<open>src/\<close>; it is the parameter \<open>mw\<close>, an array of 8 bytes.
\<close>

definition isMagicWord :: "byte list \<Rightarrow> byte list \<Rightarrow> bool" where
  "isMagicWord mw last8Bytes =
     (let j = length (filter (\<lambda>i. last8Bytes ! i = mw ! i) [0..<8]) in j = 8)"

text \<open>
  Lines 161-174: the initial synchronisation. It returns the window and the
  input that is left once the window holds the magic word, and \<open>None\<close> if the
  input ends before that (the loop is still reading). Nothing is stored.
\<close>

fun resync :: "byte list \<Rightarrow> byte list \<Rightarrow> serial \<Rightarrow> (byte list \<times> serial) option" where
  "resync mw w [] = (if isMagicWord mw w then Some (w, []) else None)"
| "resync mw w (r # rs) =
     (if isMagicWord mw w then Some (w, r # rs) else resync mw (shift_in w r) rs)"

text \<open>
  Lines 179-232: the main loop, with the window \<open>w\<close> and the fill buffer \<open>nb\<close>
  (\<^verbatim>\<open>*nextBufp\<close>). Each byte is pushed onto the fill buffer; when the window
  holds the magic word the buffer is handed to the Swap thread and, after the
  swap, the new fill buffer is cleared and the window zeroed. The result is the
  list of buffers handed over, in order.
\<close>

fun read_loop :: "byte list \<Rightarrow> byte list \<Rightarrow> byte list \<Rightarrow> serial \<Rightarrow> byte list list" where
  "read_loop mw w nb [] = []"
| "read_loop mw w nb (r # rs) =
     (let w' = shift_in w r; nb' = nb @ [last w']
      in if isMagicWord mw w' then nb' # read_loop mw (replicate 8 0) [] rs
         else read_loop mw w' nb' rs)"

text \<open>Lines 128-238 after the port is open: \<^verbatim>\<open>last8Bytes\<close> starts as zeros.\<close>

definition readIncomingData :: "byte list \<Rightarrow> serial \<Rightarrow> byte list list" where
  "readIncomingData mw input =
     (case resync mw (replicate 8 0) input of
        None \<Rightarrow> []
      | Some (w, rest) \<Rightarrow> read_loop mw w [] rest)"

text \<open>The clouds published for a serial input: the Sorter on the Reader's buffers.\<close>

definition published :: "RadarConfig \<Rightarrow> byte list \<Rightarrow> serial \<Rightarrow> cloud list" where
  "published cfg mw input = fst (sortIncomingData cfg sorter_init (readIncomingData mw input))"

section \<open>The three threads\<close>

text \<open>
  The Reader, the Sorter and the Swap thread share \<^verbatim>\<open>countSync\<close>, three mutexes,
  three condition variables and the two buffer pointers. Their interleavings
  are sequences of steps on the record \<open>threads\<close>: the shared variables, the
  Reader's \<^verbatim>\<open>firstPacketReady\<close>, and for each thread the statement it is at.
  What the Reader reads and what the Sorter parses is left out here; a byte
  that completes the magic word and a pass of the Sorter that reaches
  \<^verbatim>\<open>SWAP_BUFFERS\<close> are steps of their own.

  The POSIX primitives:
  \<^item> \<^verbatim>\<open>pthread_mutex_lock\<close> is a step only while the mutex is free;
  \<^item> \<^verbatim>\<open>pthread_cond_wait\<close> releases the mutex and blocks (\<open>_waiting\<close>); once woken
    (\<open>_woken\<close>) the thread takes the mutex again before it goes on;
  \<^item> \<^verbatim>\<open>pthread_cond_signal\<close> wakes the thread blocked on the condition, if there
    is one, and is lost otherwise;
  \<^item> a blocked thread may also wake up with no signal (POSIX allows spurious
    wakeups from \<^verbatim>\<open>pthread_cond_wait\<close>): the step \<open>Spurious_wakeup\<close>.
\<close>

datatype thread = ReaderThread | SorterThread | SwapThread

text \<open>The statements of \<^verbatim>\<open>readIncomingData\<close> (lines 161-232).\<close>

datatype reader_pc =
    R_resync | R_lock_next | R_fill | R_lock_count | R_unlock_next | R_count | R_signal
  | R_wait | R_waiting | R_woken | R_unlock_count | R_relock_next | R_clear

text \<open>The statements of \<^verbatim>\<open>sortIncomingData\<close> (lines 313-320 and 741-763).\<close>

datatype sorter_pc =
    S_first_lock_count | S_first_wait | S_first_waiting | S_first_woken | S_first_unlock_count
  | S_first_lock_current | S_parse | S_lock_count | S_unlock_current | S_count | S_signal
  | S_wait | S_waiting | S_woken | S_unlock_count | S_relock_current | S_reset

text \<open>The statements of \<^verbatim>\<open>syncedBufferSwap\<close> (lines 265-294).\<close>

datatype swap_pc =
    W_lock_count | W_test | W_wait | W_waiting | W_woken | W_lock_current | W_lock_next
  | W_exchange | W_unlock_current | W_unlock_next | W_reset | W_signal_sort | W_signal_read
  | W_unlock_count

record threads =
  countSync :: int
  firstPacketReady :: int
  countSync_mutex :: "thread option"
  currentBufp_mutex :: "thread option"
  nextBufp_mutex :: "thread option"
  currentBufp :: nat
  nextBufp :: nat
  reader_at :: reader_pc
  sorter_at :: sorter_pc
  swap_at :: swap_pc

text \<open>
  Modelled from the spec: the macro \<^verbatim>\<open>COUNT_SYNC_MAX\<close> is defined in a header that is
  not under \<^verbatim>\<open>src/\<close>. Section 3 of the spec keeps \<^verbatim>\<open>countSync\<close> in [0, 2] and
  section 4.3 lets the Swap thread wait until it is 2.
\<close>

definition COUNT_SYNC_MAX :: int where
  "COUNT_SYNC_MAX = 2"

text \<open>
  The state when \<^verbatim>\<open>start\<close> has created the threads: the constructor points
  \<^verbatim>\<open>currentBufp\<close> at buffer 0 and \<^verbatim>\<open>nextBufp\<close> at buffer 1.
\<close>

definition threads_init :: threads where
  "threads_init =
     \<lparr>countSync = 0, firstPacketReady = 0, countSync_mutex = None, currentBufp_mutex = None,
      nextBufp_mutex = None, currentBufp = 0, nextBufp = 1,
      reader_at = R_resync, sorter_at = S_first_lock_count, swap_at = W_lock_count\<rparr>"

text \<open>
  The steps. \<open>Reader_next\<close> in the two read loops is a byte that does not
  complete the magic word, \<open>Reader_magicWord\<close> one that does; \<open>Sorter_next\<close>
  while parsing is a pass that stays away from \<^verbatim>\<open>SWAP_BUFFERS\<close>, \<open>Sorter_drained\<close>
  one that reaches it.
\<close>

datatype action =
    Reader_next | Reader_magicWord
  | Sorter_next | Sorter_drained
  | Swap_next
  | Spurious_wakeup thread

text \<open>
  \<^verbatim>\<open>pthread_cond_signal\<close> on the three condition variables. Only the Swap thread
  waits on \<^verbatim>\<open>countSync_max_cv\<close> (line 271), only the Reader on \<^verbatim>\<open>read_go_cv\<close>
  (line 221), only the Sorter on \<^verbatim>\<open>sort_go_cv\<close> (lines 315 and 753).
\<close>

definition signal_countSync_max :: "threads \<Rightarrow> threads" where
  "signal_countSync_max s = (if swap_at s = W_waiting then s\<lparr>swap_at := W_woken\<rparr> else s)"

definition signal_read_go :: "threads \<Rightarrow> threads" where
  "signal_read_go s = (if reader_at s = R_waiting then s\<lparr>reader_at := R_woken\<rparr> else s)"

definition signal_sort_go :: "threads \<Rightarrow> threads" where
  "signal_sort_go s =
     (if sorter_at s = S_waiting then s\<lparr>sorter_at := S_woken\<rparr>
      else if sorter_at s = S_first_waiting then s\<lparr>sorter_at := S_first_woken\<rparr>
      else s)"

text \<open>Lines 177-228 of the Reader, one statement per step.\<close>

definition reader_next :: "threads \<Rightarrow> threads option" where
  "reader_next s =
     (case reader_at s of
        R_resync \<Rightarrow> Some s
      | R_lock_next \<Rightarrow>
          if nextBufp_mutex s = None
          then Some (s\<lparr>nextBufp_mutex := Some ReaderThread, reader_at := R_fill\<rparr>) else None
      | R_fill \<Rightarrow> Some s
      | R_lock_count \<Rightarrow>
          if countSync_mutex s = None
          then Some (s\<lparr>countSync_mutex := Some ReaderThread, reader_at := R_unlock_next\<rparr>)
          else None
      | R_unlock_next \<Rightarrow> Some (s\<lparr>nextBufp_mutex := None, reader_at := R_count\<rparr>)
      | R_count \<Rightarrow>
          Some (if firstPacketReady s = 0
                then s\<lparr>countSync := countSync s + 1 + 1, firstPacketReady := 1,
                       reader_at := R_signal\<rparr>
                else s\<lparr>countSync := countSync s + 1, reader_at := R_signal\<rparr>)
      | R_signal \<Rightarrow>
          Some ((if countSync s = COUNT_SYNC_MAX then signal_countSync_max s else s)
                 \<lparr>reader_at := R_wait\<rparr>)
      | R_wait \<Rightarrow> Some (s\<lparr>countSync_mutex := None, reader_at := R_waiting\<rparr>)
      | R_waiting \<Rightarrow> None
      | R_woken \<Rightarrow>
          if countSync_mutex s = None
          then Some (s\<lparr>countSync_mutex := Some ReaderThread, reader_at := R_unlock_count\<rparr>)
          else None
      | R_unlock_count \<Rightarrow> Some (s\<lparr>countSync_mutex := None, reader_at := R_relock_next\<rparr>)
      | R_relock_next \<Rightarrow>
          if nextBufp_mutex s = None
          then Some (s\<lparr>nextBufp_mutex := Some ReaderThread, reader_at := R_clear\<rparr>) else None
      | R_clear \<Rightarrow> Some (s\<lparr>reader_at := R_fill\<rparr>))"

text \<open>Lines 162 and 196: \<^verbatim>\<open>isMagicWord\<close> holds after the byte just read.\<close>

definition reader_magicWord :: "threads \<Rightarrow> threads option" where
  "reader_magicWord s =
     (case reader_at s of
        R_resync \<Rightarrow> Some (s\<lparr>reader_at := R_lock_next\<rparr>)
      | R_fill \<Rightarrow> Some (s\<lparr>reader_at := R_lock_count\<rparr>)
      | _ \<Rightarrow> None)"

text \<open>Lines 314-318 and 743-761 of the Sorter, one statement per step.\<close>

definition sorter_next :: "threads \<Rightarrow> threads option" where
  "sorter_next s =
     (case sorter_at s of
        S_first_lock_count \<Rightarrow>
          if countSync_mutex s = None
          then Some (s\<lparr>countSync_mutex := Some SorterThread, sorter_at := S_first_wait\<rparr>)
          else None
      | S_first_wait \<Rightarrow> Some (s\<lparr>countSync_mutex := None, sorter_at := S_first_waiting\<rparr>)
      | S_first_waiting \<Rightarrow> None
      | S_first_woken \<Rightarrow>
          if countSync_mutex s = None
          then Some (s\<lparr>countSync_mutex := Some SorterThread, sorter_at := S_first_unlock_count\<rparr>)
          else None
      | S_first_unlock_count \<Rightarrow>
          Some (s\<lparr>countSync_mutex := None, sorter_at := S_first_lock_current\<rparr>)
      | S_first_lock_current \<Rightarrow>
          if currentBufp_mutex s = None
          then Some (s\<lparr>currentBufp_mutex := Some SorterThread, sorter_at := S_parse\<rparr>)
          else None
      | S_parse \<Rightarrow> Some s
      | S_lock_count \<Rightarrow>
          if countSync_mutex s = None
          then Some (s\<lparr>countSync_mutex := Some SorterThread, sorter_at := S_unlock_current\<rparr>)
          else None
      | S_unlock_current \<Rightarrow> Some (s\<lparr>currentBufp_mutex := None, sorter_at := S_count\<rparr>)
      | S_count \<Rightarrow> Some (s\<lparr>countSync := countSync s + 1, sorter_at := S_signal\<rparr>)
      | S_signal \<Rightarrow>
          Some ((if countSync s = COUNT_SYNC_MAX then signal_countSync_max s else s)
                 \<lparr>sorter_at := S_wait\<rparr>)
      | S_wait \<Rightarrow> Some (s\<lparr>countSync_mutex := None, sorter_at := S_waiting\<rparr>)
      | S_waiting \<Rightarrow> None
      | S_woken \<Rightarrow>
          if countSync_mutex s = None
          then Some (s\<lparr>countSync_mutex := Some SorterThread, sorter_at := S_unlock_count\<rparr>)
          else None
      | S_unlock_count \<Rightarrow> Some (s\<lparr>countSync_mutex := None, sorter_at := S_relock_current\<rparr>)
      | S_relock_current \<Rightarrow>
          if currentBufp_mutex s = None
          then Some (s\<lparr>currentBufp_mutex := Some SorterThread, sorter_at := S_reset\<rparr>)
          else None
      | S_reset \<Rightarrow> Some (s\<lparr>sorter_at := S_parse\<rparr>))"

text \<open>The pass of the state machine that sets \<^verbatim>\<open>sorterState = SWAP_BUFFERS\<close>.\<close>

definition sorter_drained :: "threads \<Rightarrow> threads option" where
  "sorter_drained s =
     (case sorter_at s of S_parse \<Rightarrow> Some (s\<lparr>sorter_at := S_lock_count\<rparr>) | _ \<Rightarrow> None)"

text \<open>
  Lines 267-292 of the Swap thread. The exchange of the pointers and what
  follows it stand inside the \<^verbatim>\<open>while(countSync < COUNT_SYNC_MAX)\<close> loop, right
  after \<^verbatim>\<open>pthread_cond_wait\<close>.
\<close>

definition syncedBufferSwap :: "threads \<Rightarrow> threads option" where
  "syncedBufferSwap s =
     (case swap_at s of
        W_lock_count \<Rightarrow>
          if countSync_mutex s = None
          then Some (s\<lparr>countSync_mutex := Some SwapThread, swap_at := W_test\<rparr>) else None
      | W_test \<Rightarrow>
          Some (if countSync s < COUNT_SYNC_MAX then s\<lparr>swap_at := W_wait\<rparr>
                else s\<lparr>swap_at := W_unlock_count\<rparr>)
      | W_wait \<Rightarrow> Some (s\<lparr>countSync_mutex := None, swap_at := W_waiting\<rparr>)
      | W_waiting \<Rightarrow> None
      | W_woken \<Rightarrow>
          if countSync_mutex s = None
          then Some (s\<lparr>countSync_mutex := Some SwapThread, swap_at := W_lock_current\<rparr>)
          else None
      | W_lock_current \<Rightarrow>
          if currentBufp_mutex s = None
          then Some (s\<lparr>currentBufp_mutex := Some SwapThread, swap_at := W_lock_next\<rparr>)
          else None
      | W_lock_next \<Rightarrow>
          if nextBufp_mutex s = None
          then Some (s\<lparr>nextBufp_mutex := Some SwapThread, swap_at := W_exchange\<rparr>)
          else None
      | W_exchange \<Rightarrow>
          Some (s\<lparr>currentBufp := nextBufp s, nextBufp := currentBufp s,
                  swap_at := W_unlock_current\<rparr>)
      | W_unlock_current \<Rightarrow> Some (s\<lparr>currentBufp_mutex := None, swap_at := W_unlock_next\<rparr>)
      | W_unlock_next \<Rightarrow> Some (s\<lparr>nextBufp_mutex := None, swap_at := W_reset\<rparr>)
      | W_reset \<Rightarrow> Some (s\<lparr>countSync := 0, swap_at := W_signal_sort\<rparr>)
      | W_signal_sort \<Rightarrow> Some ((signal_sort_go s)\<lparr>swap_at := W_signal_read\<rparr>)
      | W_signal_read \<Rightarrow> Some ((signal_read_go s)\<lparr>swap_at := W_test\<rparr>)
      | W_unlock_count \<Rightarrow> Some (s\<lparr>countSync_mutex := None, swap_at := W_lock_count\<rparr>))"

text \<open>A thread blocked in \<^verbatim>\<open>pthread_cond_wait\<close> wakes up with no signal.\<close>

definition spurious_wakeup :: "thread \<Rightarrow> threads \<Rightarrow> threads option" where
  "spurious_wakeup t s =
     (case t of
        ReaderThread \<Rightarrow>
          if reader_at s = R_waiting then Some (s\<lparr>reader_at := R_woken\<rparr>) else None
      | SorterThread \<Rightarrow>
          if sorter_at s = S_waiting then Some (s\<lparr>sorter_at := S_woken\<rparr>)
          else if sorter_at s = S_first_waiting then Some (s\<lparr>sorter_at := S_first_woken\<rparr>)
          else None
      | SwapThread \<Rightarrow>
          if swap_at s = W_waiting then Some (s\<lparr>swap_at := W_woken\<rparr>) else None)"

text \<open>One step; \<open>None\<close> when the thread is blocked or the step is not its next one.\<close>

fun perform :: "action \<Rightarrow> threads \<Rightarrow> threads option" where
  "perform Reader_next s = reader_next s"
| "perform Reader_magicWord s = reader_magicWord s"
| "perform Sorter_next s = sorter_next s"
| "perform Sorter_drained s = sorter_drained s"
| "perform Swap_next s = syncedBufferSwap s"
| "perform (Spurious_wakeup t) s = spurious_wakeup t s"

text \<open>A schedule is a list of steps; it is \<open>None\<close> if one of them cannot be taken.\<close>

fun schedule :: "action list \<Rightarrow> threads \<Rightarrow> threads option" where
  "schedule [] s = Some s"
| "schedule (a # as) s = (case perform a s of None \<Rightarrow> None | Some s' \<Rightarrow> schedule as s')"

text \<open>
  The invariant of the barrier. It speaks about the statements the threads are
  at: which of them hold \<^verbatim>\<open>countSync_mutex\<close>, where a worker has counted itself in
  and waits to be resumed, where the Sorter has not yet been woken for the
  first time, and the phase of the Swap thread.
\<close>

fun reader_holds :: "reader_pc \<Rightarrow> bool" where
  "reader_holds R_unlock_next = True"
| "reader_holds R_count = True"
| "reader_holds R_signal = True"
| "reader_holds R_wait = True"
| "reader_holds R_unlock_count = True"
| "reader_holds _ = False"

fun sorter_holds :: "sorter_pc \<Rightarrow> bool" where
  "sorter_holds S_first_wait = True"
| "sorter_holds S_first_unlock_count = True"
| "sorter_holds S_unlock_current = True"
| "sorter_holds S_count = True"
| "sorter_holds S_signal = True"
| "sorter_holds S_wait = True"
| "sorter_holds S_unlock_count = True"
| "sorter_holds _ = False"

fun swap_holds :: "swap_pc \<Rightarrow> bool" where
  "swap_holds W_lock_count = False"
| "swap_holds W_waiting = False"
| "swap_holds W_woken = False"
| "swap_holds _ = True"

fun reader_counted :: "reader_pc \<Rightarrow> bool" where
  "reader_counted R_signal = True"
| "reader_counted R_wait = True"
| "reader_counted R_waiting = True"
| "reader_counted _ = False"

fun sorter_counted :: "sorter_pc \<Rightarrow> bool" where
  "sorter_counted S_signal = True"
| "sorter_counted S_wait = True"
| "sorter_counted S_waiting = True"
| "sorter_counted _ = False"

fun sorter_unstarted :: "sorter_pc \<Rightarrow> bool" where
  "sorter_unstarted S_first_lock_count = True"
| "sorter_unstarted S_first_wait = True"
| "sorter_unstarted S_first_waiting = True"
| "sorter_unstarted _ = False"

fun reader_before_count :: "reader_pc \<Rightarrow> bool" where
  "reader_before_count R_resync = True"
| "reader_before_count R_lock_next = True"
| "reader_before_count R_fill = True"
| "reader_before_count R_lock_count = True"
| "reader_before_count R_unlock_next = True"
| "reader_before_count R_count = True"
| "reader_before_count _ = False"

text \<open>
  The Swap thread is idle until it is woken, exchanges the pointers until it
  has reset the counter, and then sends its two signals.
\<close>

datatype swap_phase = Idle | Exchanging | Signalling_sort | Signalling_read

fun phase :: "swap_pc \<Rightarrow> swap_phase" where
  "phase W_lock_count = Idle"
| "phase W_test = Idle"
| "phase W_wait = Idle"
| "phase W_waiting = Idle"
| "phase W_unlock_count = Idle"
| "phase W_woken = Exchanging"
| "phase W_lock_current = Exchanging"
| "phase W_lock_next = Exchanging"
| "phase W_exchange = Exchanging"
| "phase W_unlock_current = Exchanging"
| "phase W_unlock_next = Exchanging"
| "phase W_reset = Exchanging"
| "phase W_signal_sort = Signalling_sort"
| "phase W_signal_read = Signalling_read"

text \<open>
  The counter is the number of workers that have counted themselves in (2 for
  the Reader's first frame boundary, while the Sorter has not started); the
  Swap thread is only woken when it is 2 and both workers are blocked or about
  to block; after the reset both are still blocked until they are signalled.
\<close>

definition barrier_inv :: "threads \<Rightarrow> bool" where
  "barrier_inv s \<longleftrightarrow>
     (countSync_mutex s = Some ReaderThread \<longleftrightarrow> reader_holds (reader_at s)) \<and>
     (countSync_mutex s = Some SorterThread \<longleftrightarrow> sorter_holds (sorter_at s)) \<and>
     (countSync_mutex s = Some SwapThread \<longleftrightarrow> swap_holds (swap_at s)) \<and>
     (firstPacketReady s = 0 \<or> firstPacketReady s = 1) \<and>
     (firstPacketReady s = 0 \<longrightarrow>
        sorter_unstarted (sorter_at s) \<and> phase (swap_at s) = Idle \<and>
        reader_before_count (reader_at s)) \<and>
     (case phase (swap_at s) of
        Idle \<Rightarrow>
          countSync s = of_bool (reader_counted (reader_at s)) + of_bool (sorter_counted (sorter_at s))
          \<or> countSync s = 2 \<and> reader_counted (reader_at s) \<and> sorter_unstarted (sorter_at s)
      | Exchanging \<Rightarrow>
          countSync s = 2 \<and> (reader_at s = R_wait \<or> reader_at s = R_waiting) \<and>
          (sorter_at s = S_wait \<or> sorter_at s = S_waiting \<or> sorter_unstarted (sorter_at s))
      | Signalling_sort \<Rightarrow>
          countSync s = 0 \<and> reader_at s = R_waiting \<and>
          (sorter_at s = S_waiting \<or> sorter_unstarted (sorter_at s))
      | Signalling_read \<Rightarrow>
          countSync s = 0 \<and> reader_at s = R_waiting \<and>
          (sorter_at s = S_woken \<or> sorter_at s = S_first_woken \<or>
           sorter_at s = S_first_lock_count))"

text \<open>The steps in which \<^verbatim>\<open>pthread_cond_wait\<close> returns with no signal.\<close>

fun spurious :: "action \<Rightarrow> bool" where
  "spurious (Spurious_wakeup t) = True"
| "spurious _ = False"

text \<open>
  A schedule in which the Swap thread wakes up spuriously before the Reader
  has found the first magic word, and its continuation up to the Reader's first
  frame boundary.
\<close>

definition early_exchange :: "action list" where
  "early_exchange =
     [Sorter_next, Sorter_next,
      Swap_next, Swap_next, Swap_next, Spurious_wakeup SwapThread,
      Swap_next, Swap_next, Swap_next]"

definition overcount :: "action list" where
  "overcount =
     early_exchange @
     [Swap_next, Swap_next, Swap_next, Swap_next, Swap_next, Swap_next, Swap_next, Swap_next,
      Sorter_next, Sorter_next, Sorter_next, Sorter_drained,
      Sorter_next, Sorter_next, Sorter_next, Sorter_next, Sorter_next,
      Reader_magicWord, Reader_next, Reader_magicWord, Reader_next, Reader_next, Reader_next]"

section \<open>Example inputs\<close>

text \<open>
  An instance of the magic word for the examples: the sync pattern that opens
  every packet of the mmWave demo's output.
\<close>

definition magicWord_demo :: "byte list" where
  "magicWord_demo = [2, 1, 4, 3, 6, 5, 8, 7]"

text \<open>
  A configuration with both angle filters off (the constructor's 90 degrees).
  In the examples the tangent of the library is the exact one.
\<close>

definition cfg_unfiltered :: RadarConfig where
  "cfg_unfiltered = \<lparr>numDopplerBins = 16, rangeIdxToMeters = 1, dopplerResolutionToMps = 1,
           maxAllowedElevationAngleDeg = 90, maxAllowedAzimuthAngleDeg = 90,
           tan_deg = (\<lambda>d. tan (real_of_int d * pi / 180))\<rparr>"

text \<open>
  Drain buffers as the Reader hands them over: the frame without its magic
  word, followed by the 8 bytes of the next magic word. All have a 28-byte
  header of an XWR1443 (platform \<open>0x1443\<close>, SDK 1.1) unless said otherwise.

  \<open>frame_one_point\<close>: \<^verbatim>\<open>numDetectedObj = 0\<close> in the header, one detected-objects TLV
  with \<^verbatim>\<open>numObj = 1\<close>, \<^verbatim>\<open>xyzQFormat = 0\<close> and the object
  \<^verbatim>\<open>rangeIdx = 0, dopplerIdx = 0, peakVal = 0, x = 0, y = 1, z = 0\<close>.
\<close>

definition frame_one_point :: "byte list" where
  "frame_one_point =
     [0, 0, 1, 1,  0x38, 0, 0, 0,  0x43, 0x14, 0, 0,  1, 0, 0, 0,  0, 0, 0, 0,
      0, 0, 0, 0,  1, 0, 0, 0,
      1, 0, 0, 0,  16, 0, 0, 0,
      1, 0,  0, 0,
      0, 0,  0, 0,  0, 0,  0, 0,  1, 0,  0, 0,
      2, 1, 4, 3, 6, 5, 8, 7]"

text \<open>\<open>frame_no_objects\<close>: one detected-objects TLV with \<^verbatim>\<open>numObj = 0\<close>.\<close>

definition frame_no_objects :: "byte list" where
  "frame_no_objects =
     [0, 0, 1, 1,  0x2C, 0, 0, 0,  0x43, 0x14, 0, 0,  1, 0, 0, 0,  0, 0, 0, 0,
      0, 0, 0, 0,  1, 0, 0, 0,
      1, 0, 0, 0,  4, 0, 0, 0,
      0, 0,  0, 0,
      2, 1, 4, 3, 6, 5, 8, 7]"

text \<open>
  \<open>frame_oversized_tlv\<close>: \<^verbatim>\<open>numTLVs = 2\<close>, and a stats TLV whose length field says
  1000 bytes although the buffer ends after its header.
\<close>

definition frame_oversized_tlv :: "byte list" where
  "frame_oversized_tlv =
     [0, 0, 1, 1,  0x28, 0, 0, 0,  0x43, 0x14, 0, 0,  1, 0, 0, 0,  0, 0, 0, 0,
      0, 0, 0, 0,  2, 0, 0, 0,
      6, 0, 0, 0,  0xE8, 3, 0, 0,
      2, 1, 4, 3, 6, 5, 8, 7]"

text \<open>
  \<open>frame_old_sdk\<close>: SDK version 0.0 on an XWR1642 (platform \<open>0x1642\<close>): a 28-byte
  header, then a stats TLV (type 6, length 4) and its 4 bytes.
\<close>

definition frame_old_sdk :: "byte list" where
  "frame_old_sdk =
     [0, 0, 0, 0,  0x2C, 0, 0, 0,  0x42, 0x16, 0, 0,  1, 0, 0, 0,  0, 0, 0, 0,
      0, 0, 0, 0,  1, 0, 0, 0,
      6, 0, 0, 0,  4, 0, 0, 0,  0xDE, 0xAD, 0xBE, 0xEF,
      2, 1, 4, 3, 6, 5, 8, 7]"

text \<open>\<open>frame_tlv8\<close>: one TLV of type 8 and length 0.\<close>

definition frame_tlv8 :: "byte list" where
  "frame_tlv8 =
     [0, 0, 1, 1,  0x28, 0, 0, 0,  0x43, 0x14, 0, 0,  1, 0, 0, 0,  0, 0, 0, 0,
      0, 0, 0, 0,  1, 0, 0, 0,
      8, 0, 0, 0,  0, 0, 0, 0,
      2, 1, 4, 3, 6, 5, 8, 7]"

text \<open>
  \<open>short_frame\<close>: 16 bytes, of which the second word, where \<^verbatim>\<open>totalPacketLen\<close>
  is, holds 12.
\<close>

definition short_frame :: "byte list" where
  "short_frame = [0, 0, 1, 1,  12, 0, 0, 0,  2, 1, 4, 3, 6, 5, 8, 7]"

text \<open>
  \<open>obj_scenario2\<close>: the record of scenario 2 of the spec,
  \<^verbatim>\<open>rangeIdx = 10, dopplerIdx = 0, peakVal = 99, x = 0, y = 256, z = 0\<close>.
\<close>

definition obj_scenario2 :: "byte list" where
  "obj_scenario2 = [10, 0,  0, 0,  99, 0,  0, 0,  0, 1,  0, 0]"

text \<open>\<open>frame_wrong_length\<close>: \<open>frame_one_point\<close> with \<^verbatim>\<open>totalPacketLen\<close> one too small.\<close>

definition frame_wrong_length :: "byte list" where
  "frame_wrong_length =
     [0, 0, 1, 1,  0x37, 0, 0, 0,  0x43, 0x14, 0, 0,  1, 0, 0, 0,  0, 0, 0, 0,
      0, 0, 0, 0,  1, 0, 0, 0,
      1, 0, 0, 0,  16, 0, 0, 0,
      1, 0,  0, 0,
      0, 0,  0, 0,  0, 0,  0, 0,  1, 0,  0, 0,
      2, 1, 4, 3, 6, 5, 8, 7]"

text \<open>\<open>frame_tlv_max\<close>: one TLV of type \<^verbatim>\<open>MMWDEMO_OUTPUT_MSG_MAX\<close> and length 0.\<close>

definition frame_tlv_max :: "byte list" where
  "frame_tlv_max =
     [0, 0, 1, 1,  0x28, 0, 0, 0,  0x43, 0x14, 0, 0,  1, 0, 0, 0,  0, 0, 0, 0,
      0, 0, 0, 0,  1, 0, 0, 0,
      7, 0, 0, 0,  0, 0, 0, 0,
      2, 1, 4, 3, 6, 5, 8, 7]"

text \<open>The Sorter after \<^verbatim>\<open>READ_HEADER\<close> on \<open>frame_tlv8\<close> or \<open>frame_tlv_max\<close>.\<close>

definition sorter_after_header :: sorter where
  "sorter_after_header =
     sorter_init\<lparr>sorterState := CHECK_TLV_TYPE, currentDatap := 28,
       hdr := \<lparr>version = 0x01010000, totalPacketLen = 0x28, platform = 0x1443, frameNumber = 1,
              timeCpuCycles = 0, numDetectedObj = 0, numTLVs = 1, subFrameNumber = 0\<rparr>\<rparr>"

text \<open>The point and the cloud that \<open>frame_one_point\<close> yields.\<close>

definition point_ahead :: RadarPoint where
  "point_ahead = \<lparr>x = 65536, y = 0, z = 0, intensity = 0, range_m = 0, doppler = 0\<rparr>"

definition cloud_one_point :: cloud where
  "cloud_one_point = \<lparr>frame_id = ''base_radar_link'', height = 1, width = 1,
         is_dense = True, points = [point_ahead]\<rparr>"

text \<open>
  A configuration with both angle filters at 45 degrees. The exact tangent is
  1 there; a library returns 1 or a \<^verbatim>\<open>double\<close> next to it, and the store to the
  \<^verbatim>\<open>float\<close> rounds each of them to 1, so both ratios are 1, as they are here.
\<close>

definition cfg_45 :: RadarConfig where
  "cfg_45 = \<lparr>numDopplerBins = 16, rangeIdxToMeters = 1, dopplerResolutionToMps = 1,
           maxAllowedElevationAngleDeg = 45, maxAllowedAzimuthAngleDeg = 45,
           tan_deg = (\<lambda>d. tan (real_of_int d * pi / 180))\<rparr>"

text \<open>
  \<open>frame_steep\<close>: one detected-objects TLV with \<^verbatim>\<open>numObj = 1\<close>, \<^verbatim>\<open>xyzQFormat = 0\<close> and
  the object \<^verbatim>\<open>rangeIdx = 0, dopplerIdx = 0, peakVal = 0, x = 877, y = 11637,
  z = 11670\<close>; \<open>point_steep\<close> and \<open>cloud_steep\<close> are the point and the cloud it
  yields, \<open>serial_steep\<close> the serial input that carries it.
\<close>

definition frame_steep :: "byte list" where
  "frame_steep =
     [0, 0, 1, 1,  0x38, 0, 0, 0,  0x43, 0x14, 0, 0,  1, 0, 0, 0,  0, 0, 0, 0,
      1, 0, 0, 0,  1, 0, 0, 0,
      1, 0, 0, 0,  16, 0, 0, 0,
      1, 0,  0, 0,
      0, 0,  0, 0,  0, 0,  0x6D, 0x03,  0x75, 0x2D,  0x96, 0x2D,
      2, 1, 4, 3, 6, 5, 8, 7]"

definition point_steep :: RadarPoint where
  "point_steep = \<lparr>x = 762642432, y = - 57475072, z = 764805120,
                   intensity = 0, range_m = 0, doppler = 0\<rparr>"

definition cloud_steep :: cloud where
  "cloud_steep = \<lparr>frame_id = ''base_radar_link'', height = 1, width = 1,
         is_dense = True, points = [point_steep]\<rparr>"

definition serial_steep :: serial where
  "serial_steep = map Some (magicWord_demo @ frame_steep)"

text \<open>The serial input that carries \<open>frame_one_point\<close>: its magic word, then the buffer.\<close>

definition serial_one_point :: serial where
  "serial_one_point = map Some (magicWord_demo @ frame_one_point)"

text \<open>The 32-bit field at offset \<open>k\<close> of a frame.\<close>

definition frame_u32 :: "byte list \<Rightarrow> nat \<Rightarrow> 32 word" where
  "frame_u32 buf k = le_word (take 4 (drop k buf))"

section \<open>Auxiliary facts\<close>

subsection \<open>The loop over the detected objects\<close>

text \<open>
  The loop invariant: the points below the write index have passed the filter,
  and the write index never passes \<^verbatim>\<open>numObjOut\<close>, which never grows.
\<close>

lemma obj_loop_keeps:
  "obj_loop cfg buf q er ar i n pts c = Inr (n', pts', c') \<Longrightarrow>
   i \<le> unat n \<Longrightarrow> unat n \<le> length pts \<Longrightarrow>
   (\<forall>k<i. keep_point er ar (pts ! k)) \<Longrightarrow>
   unat n' \<le> unat n \<and> length pts' = length pts \<and> (\<forall>k<unat n'. keep_point er ar (pts' ! k))"
proof (induction cfg buf q er ar i n pts c rule: obj_loop.induct)
  case (1 cfg buf q er ar i n pts c)
  show ?case
  proof (cases "i < unat n")
    case False
    with "1.prems" show ?thesis
      by (simp add: obj_loop.simps)
  next
    case lt: True
    then obtain p where rd: "read_obj cfg buf q c = Inr p"
      using "1.prems"(1) by (cases "read_obj cfg buf q c") (simp_all add: obj_loop.simps)
    have upd: "\<forall>k<i. keep_point er ar (pts[i := p] ! k)"
      using "1.prems"(4) by simp
    show ?thesis
    proof (cases "keep_point er ar p")
      case True
      have run: "obj_loop cfg buf q er ar (i + 1) n (pts[i := p]) (c + 12) = Inr (n', pts', c')"
        using "1.prems"(1) lt rd True by (simp add: obj_loop.simps)
      have inv: "\<forall>k<i + 1. keep_point er ar (pts[i := p] ! k)"
        using upd True lt "1.prems"(3) by (auto simp: less_Suc_eq)
      from "1.IH"(1)[OF lt rd True run] lt "1.prems"(3) inv
      show ?thesis by simp
    next
      case False
      have run: "obj_loop cfg buf q er ar i (n - 1) (pts[i := p]) (c + 12) = Inr (n', pts', c')"
        using "1.prems"(1) lt rd False by (simp add: obj_loop.simps)
      from lt have "n \<noteq> 0" by auto
      then have pred: "unat (n - 1) = unat n - 1"
        by (simp add: unat_minus_one)
      have a: "i \<le> unat (n - 1)" using lt pred by simp
      have b: "unat (n - 1) \<le> length (pts[i := p])" using "1.prems"(3) pred by simp
      from "1.IH"(2)[OF lt rd False run a b upd] pred
      show ?thesis by auto
    qed
  qed
qed

lemma length_resize: "length (resize k pts) = k"
  by (simp add: resize_def)

lemma decode_objects_points:
  assumes "decode_objects cfg buf st = Inr st'"
  shows "\<exists>n0. get_u16 buf (currentDatap st) = Inr n0 \<and> length (RScan_points st') \<le> unat n0 \<and>
     length (RScan_points st') = unat (numObjOut st') \<and>
     (\<forall>p\<in>set (RScan_points st').
        keep_point (maxElevationAngleRatioSquared cfg) (maxAzimuthAngleRatio cfg) p)"
proof -
  from assms obtain n0 q n pts c where
    n0: "get_u16 buf (currentDatap st) = Inr n0" and
    loop: "obj_loop cfg buf q (maxElevationAngleRatioSquared cfg) (maxAzimuthAngleRatio cfg)
              0 n0 (resize (unat n0) (RScan_points st)) (currentDatap st + 4) = Inr (n, pts, c)" and
    st': "st' = st\<lparr>numObjOut := n, xyzQFormat := q, currentDatap := c,
                RScan_points := resize (unat n) pts\<rparr>"
    by (auto simp: decode_objects_def ebind_Inr)
  from obj_loop_keeps[OF loop] have
    le: "unat n \<le> unat n0" and len: "length pts = unat n0" and
    kept: "\<forall>k<unat n. keep_point (maxElevationAngleRatioSquared cfg) (maxAzimuthAngleRatio cfg) (pts ! k)"
    by (simp_all add: length_resize)
  have rs: "resize (unat n) pts = take (unat n) pts"
    using le len by (simp add: resize_def)
  have "\<forall>p\<in>set (take (unat n) pts).
        keep_point (maxElevationAngleRatioSquared cfg) (maxAzimuthAngleRatio cfg) p"
    using kept le len by (auto simp: in_set_conv_nth)
  with n0 le len rs st' show ?thesis by simp
qed

lemma read_obj_struct_cloud:
  assumes "read_obj_struct cfg buf st = Inr (st', c)"
  shows "\<exists>n0. get_u16 buf (currentDatap st) = Inr n0 \<and> length (points c) \<le> unat n0 \<and>
     width c = length (points c) \<and> points c \<noteq> [] \<and>
     (\<forall>p\<in>set (points c).
        keep_point (maxElevationAngleRatioSquared cfg) (maxAzimuthAngleRatio cfg) p)"
proof -
  from assms obtain st1 where d: "decode_objects cfg buf st = Inr st1"
    and c: "c = RScan st1" and ne: "RScan_points st1 \<noteq> []"
    by (auto simp: read_obj_struct_def ebind_Inr split: if_splits)
  from decode_objects_points[OF d] c ne show ?thesis
    by (auto simp: RScan_def)
qed

lemma sorter_step_cloud:
  assumes "sorter_step cfg buf st = Inr (st', out)" and "c \<in> set out"
  shows "sorterState st = READ_OBJ_STRUCT \<and> read_obj_struct cfg buf st = Inr (st', c)"
  using assms by (cases "sorterState st") (auto simp: sorter_step_def ebind_Inr)

lemma drain_cloud:
  "c \<in> set (fst (drain cfg buf st)) \<Longrightarrow>
   \<exists>s s'. sorterState s = READ_OBJ_STRUCT \<and> read_obj_struct cfg buf s = Inr (s', c)"
proof (induction cfg buf st rule: drain.induct)
  case (1 cfg buf st)
  show ?case
  proof (cases "sorterState st = SWAP_BUFFERS")
    case True
    with "1.prems" show ?thesis by (simp add: drain.simps)
  next
    case False
    show ?thesis
    proof (cases "sorter_step cfg buf st")
      case (Inl e)
      with False "1.prems" show ?thesis by (simp add: drain.simps)
    next
      case (Inr r)
      obtain st' out where r: "r = (st', out)" by (cases r)
      from "1.prems" False Inr r have "c \<in> set out \<or> c \<in> set (fst (drain cfg buf st'))"
        by (auto simp: drain.simps[of cfg buf st] split: prod.splits)
      then show ?thesis
      proof
        assume "c \<in> set out"
        with sorter_step_cloud Inr r show ?thesis by blast
      next
        assume "c \<in> set (fst (drain cfg buf st'))"
        with "1.IH"[OF False Inr[unfolded r] refl] show ?thesis by blast
      qed
    qed
  qed
qed

lemma sortIncomingData_cloud:
  "c \<in> set (fst (sortIncomingData cfg st bufs)) \<Longrightarrow>
   \<exists>buf\<in>set bufs. \<exists>s s'. sorterState s = READ_OBJ_STRUCT \<and> read_obj_struct cfg buf s = Inr (s', c)"
proof (induction bufs arbitrary: st)
  case Nil
  then show ?case by simp
next
  case (Cons buf bufs)
  obtain cs r where d: "drain cfg buf st = (cs, r)" by (cases "drain cfg buf st")
  show ?case
  proof (cases r)
    case (Inl e)
    with Cons.prems d have "c \<in> set (fst (drain cfg buf st))" by simp
    from drain_cloud[OF this] show ?thesis by auto
  next
    case (Inr st')
    with Cons.prems d have "c \<in> set cs \<or> c \<in> set (fst (sortIncomingData cfg (swap_buffers st') bufs))"
      by (auto split: prod.splits)
    then show ?thesis
    proof
      assume "c \<in> set cs"
      with d have "c \<in> set (fst (drain cfg buf st))" by simp
      from drain_cloud[OF this] show ?thesis by auto
    next
      assume "c \<in> set (fst (sortIncomingData cfg (swap_buffers st') bufs))"
      from Cons.IH[OF this] show ?thesis by auto
    qed
  qed
qed

subsection \<open>The rounding to binary32\<close>

text \<open>
  The evaluation of \<open>fl32\<close> on a number: the definition at a literal, and the
  search for the exponent one step at a time.
\<close>

lemma halvings_stop: "n = 0 \<or> a < 2 \<Longrightarrow> halvings n a = 0"
  by (simp add: halvings.simps)

lemma halvings_step: "n \<noteq> 0 \<Longrightarrow> 2 \<le> a \<Longrightarrow> halvings n a = Suc (halvings (n - 1) (a / 2))"
  by (subst halvings.simps) simp

lemma doublings_stop: "n = 0 \<or> 1 \<le> a \<Longrightarrow> doublings n a = 0"
  by (simp add: doublings.simps)

lemma doublings_step: "n \<noteq> 0 \<Longrightarrow> a < 1 \<Longrightarrow> doublings n a = Suc (doublings (n - 1) (a * 2))"
  by (subst doublings.simps) simp

lemmas fl32_literal =
  fl32_def [of 0] fl32_def [of 1] fl32_def [of "- 1"]
  fl32_def [of "numeral k"] fl32_def [of "- numeral k"]
  fl32_def [of "numeral a / numeral b"] fl32_def [of "- (numeral a / numeral b)"]
  fl32_def [of "1 / numeral b"] fl32_def [of "- (1 / numeral b)"]
  for k a b

lemmas fl32_eval = fl32_literal exponent_def pow2_def round_even_def
  halvings_stop halvings_step doublings_stop doublings_step

lemma pow2_pos: "0 < pow2 k"
  by (simp add: pow2_def)

lemma round_even_nonneg: "0 \<le> m \<Longrightarrow> 0 \<le> round_even m"
  by (simp add: round_even_def Let_def)

lemma fl32_nonneg: "0 \<le> r \<Longrightarrow> 0 \<le> fl32 r"
  by (simp add: fl32_def Let_def round_even_nonneg pow2_pos less_imp_le)

text \<open>
  Three roundings: a tie goes to the even significand, upwards from 16777227
  and downwards from 16777225, and a third is rounded at its 24th bit.
\<close>

lemma fl32_ties_to_even:
  "fl32 16777227 = 16777228 \<and> fl32 16777225 = 16777224 \<and> fl32 (1 / 3) = 11184811 / 2 ^ 25"
  by (simp add: fl32_eval Let_def)

subsection \<open>The conversion of the coordinates\<close>

text \<open>
  What lines 495-497 compute from a raw field, whatever its sign: the range
  index is added to the field times 65536 before the division.
\<close>

lemma qformat_to_float_raw16:
  "qformat_to_float r q (raw16 w) =
     fl32 (fl32 (real_of_int (sint r) + fl32 (real_of_int (sint w) * 65536))
           / fl32 (real_of_int q))"
proof -
  have "sint w < 2 ^ (LENGTH(16) - 1)" by (rule sint_lt)
  then have "sint w \<le> 32767" by simp
  then have "real_of_int (sint w) \<le> 32767"
    by (metis of_int_le_iff of_int_numeral)
  then have "\<not> raw16 w > 32767"
    unfolding raw16_def by linarith
  then have "qformat_to_float r q (raw16 w) =
      fl32 (fl32 (raw16 r + fl32 (raw16 w * 65536)) / fl32 (real_of_int q))"
    by (simp add: qformat_to_float_def)
  then show ?thesis by (simp add: raw16_def)
qed

text \<open>
  With the range index 11, the raw field 256 and the divisor 256, the sum
  16777227 is not a binary32 number and is rounded before the division.
\<close>

lemma qformat_to_float_rounds:
  "qformat_to_float 11 256 256 = 16777228 / 256"
  by (simp add: qformat_to_float_def raw16_def fl32_eval Let_def)

subsection \<open>The angle filter\<close>

text \<open>
  What the test of lines 548-555 gives for a point that passes it: the
  comparisons hold of the rounded quotients and the stored ratios.
\<close>

lemma keep_point_filter:
  assumes "keep_point (maxElevationAngleRatioSquared cfg) (maxAzimuthAngleRatio cfg) p"
  shows "x p \<noteq> 0 \<and>
     (0 \<le> maxAllowedElevationAngleDeg cfg \<and> maxAllowedElevationAngleDeg cfg < 90 \<longrightarrow>
        elevationRatio p < maxElevationAngleRatioSquared cfg) \<and>
     (0 \<le> maxAllowedAzimuthAngleDeg cfg \<and> maxAllowedAzimuthAngleDeg cfg < 90 \<and>
      maxAzimuthAngleRatio cfg \<noteq> - 1 \<longrightarrow>
        azimuthRatio p < maxAzimuthAngleRatio cfg)"
proof (intro conjI impI)
  from assms show "x p \<noteq> 0" by (simp add: keep_point_def)
next
  assume en: "0 \<le> maxAllowedElevationAngleDeg cfg \<and> maxAllowedElevationAngleDeg cfg < 90"
  let ?t = "fl32 (tan_deg cfg (maxAllowedElevationAngleDeg cfg))"
  from en have er: "maxElevationAngleRatioSquared cfg = fl32 (?t * ?t)"
    by (simp add: maxElevationAngleRatioSquared_def Let_def)
  have "0 \<le> fl32 (?t * ?t)" by (rule fl32_nonneg) simp
  then have "fl32 (?t * ?t) \<noteq> - 1" by linarith
  with er have "maxElevationAngleRatioSquared cfg \<noteq> - 1" by simp
  with assms show "elevationRatio p < maxElevationAngleRatioSquared cfg"
    by (simp add: keep_point_def)
next
  assume "0 \<le> maxAllowedAzimuthAngleDeg cfg \<and> maxAllowedAzimuthAngleDeg cfg < 90 \<and>
      maxAzimuthAngleRatio cfg \<noteq> - 1"
  with assms show "azimuthRatio p < maxAzimuthAngleRatio cfg"
    by (simp add: keep_point_def)
qed

subsection \<open>The header\<close>

lemma get_u32_frame:
  "unat p + 4 \<le> length buf \<Longrightarrow> get_u32 buf p = Inr (frame_u32 buf (unat p))"
  by (simp add: get_u32_def memcpy_at_def ebind_def frame_u32_def)

lemma headerSize_cases: "unat (headerSize v p) = 28 \<or> unat (headerSize v p) = 32"
  by (simp add: headerSize_def)

lemma read_version_len_platform_start:
  assumes "12 \<le> length buf" and "currentDatap st = 0"
  shows "read_version_len_platform buf st =
     Inr (st\<lparr>hdr := (hdr st)\<lparr>version := frame_u32 buf 0, totalPacketLen := frame_u32 buf 4,
                              platform := frame_u32 buf 8\<rparr>,
             currentDatap := 12\<rparr>)"
  using assms by (simp add: read_version_len_platform_def get_u32_frame ebind_def)

lemma read_frame_fields_start:
  assumes "28 \<le> length buf" and "currentDatap st = 12"
  shows "\<exists>st'. read_frame_fields buf st = Inr st' \<and> currentDatap st' = 28 \<and>
     sorterState st' = sorterState st \<and> tlvCount st' = tlvCount st \<and>
     version (hdr st') = version (hdr st) \<and> totalPacketLen (hdr st') = totalPacketLen (hdr st) \<and>
     platform (hdr st') = platform (hdr st)"
  using assms by (simp add: read_frame_fields_def get_u32_frame ebind_def)

lemma read_subFrameNumber_start:
  assumes "currentDatap st = 28"
    and "platform (hdr st) AND 0xFFFF \<noteq> 0x1443 \<longrightarrow> 32 \<le> length buf"
  shows "\<exists>st'. read_subFrameNumber buf st = Inr st' \<and>
     sorterState st' = sorterState st \<and> tlvCount st' = tlvCount st \<and>
     totalPacketLen (hdr st') = totalPacketLen (hdr st) \<and>
     currentDatap st' = (if platform (hdr st) AND 0xFFFF \<noteq> 0x1443 then 32 else 28)"
  using assms by (simp add: read_subFrameNumber_def get_u32_frame ebind_def)

lemma drain_header_swap:
  assumes "sorterState st = READ_HEADER" and "read_header buf st = Inr st'"
    and "sorterState st' = SWAP_BUFFERS"
  shows "drain cfg buf st = ([], Inr st')"
  using assms
  by (simp add: drain.simps[of cfg buf st] drain.simps[of cfg buf st'] sorter_step_def ebind_def)

lemma read_header_short:
  assumes "currentDatap st = 0"
    and "length buf < 12 \<or> length buf < unat (headerSize (frame_u32 buf 0) (frame_u32 buf 8))"
  shows "\<exists>st'. read_header buf st = Inr st' \<and> sorterState st' = SWAP_BUFFERS"
proof (cases "length buf < 12")
  case True
  then show ?thesis by (simp add: read_header_def)
next
  case False
  then have "12 \<le> length buf" by simp
  from read_version_len_platform_start[OF this assms(1)] False assms(2)
  show ?thesis by (simp add: read_header_def ebind_def)
qed

lemma read_header_complete:
  assumes "currentDatap st = 0"
    and "unat (headerSize (frame_u32 buf 0) (frame_u32 buf 8)) \<le> length buf"
    and "frame_u32 buf 8 AND 0xFFFF \<noteq> 0x1443 \<longrightarrow> 32 \<le> length buf"
  shows "\<exists>st'. read_header buf st = Inr st' \<and>
     sorterState st' = (if unat (frame_u32 buf 4) = length buf - 4 then CHECK_TLV_TYPE
                        else SWAP_BUFFERS)"
proof -
  from assms(2) headerSize_cases[of "frame_u32 buf 0" "frame_u32 buf 8"]
  have l28: "28 \<le> length buf" by auto
  then have l12: "12 \<le> length buf" by simp
  let ?st1 = "st\<lparr>hdr := (hdr st)\<lparr>version := frame_u32 buf 0, totalPacketLen := frame_u32 buf 4,
                              platform := frame_u32 buf 8\<rparr>,
             currentDatap := 12\<rparr>"
  have r1: "read_version_len_platform buf st = Inr ?st1"
    by (rule read_version_len_platform_start[OF l12 assms(1)])
  from read_frame_fields_start[OF l28, of ?st1] obtain st2 where
    r2: "read_frame_fields buf ?st1 = Inr st2" and c2: "currentDatap st2 = 28"
    and t2: "totalPacketLen (hdr st2) = frame_u32 buf 4"
    and p2: "platform (hdr st2) = frame_u32 buf 8"
    by auto
  from read_subFrameNumber_start[OF c2, of buf] assms(3) p2 obtain st3 where
    r3: "read_subFrameNumber buf st2 = Inr st3" and t3: "totalPacketLen (hdr st3) = frame_u32 buf 4"
    using t2 by auto
  from l12 assms(2) r1 r2 r3 t3 show ?thesis
    by (simp add: read_header_def ebind_def)
qed

text \<open>The header bytes the Sorter consumes on its way to \<^verbatim>\<open>CHECK_TLV_TYPE\<close>.\<close>

lemma read_version_len_platform_cursor:
  "read_version_len_platform buf st = Inr st' \<Longrightarrow> currentDatap st' = currentDatap st + 12"
  by (auto simp: read_version_len_platform_def ebind_Inr)

lemma read_frame_fields_cursor:
  "read_frame_fields buf st = Inr st' \<Longrightarrow>
     currentDatap st' = currentDatap st + 16 \<and> platform (hdr st') = platform (hdr st)"
  by (auto simp: read_frame_fields_def ebind_Inr)

lemma read_subFrameNumber_cursor:
  "read_subFrameNumber buf st = Inr st' \<Longrightarrow>
     currentDatap st' =
       currentDatap st + (if platform (hdr st) AND 0xFFFF = 0x1443 then 0 else 4) \<and>
     platform (hdr st') = platform (hdr st)"
  by (auto simp: read_subFrameNumber_def ebind_Inr split: if_splits)

lemma read_header_consumes:
  assumes "read_header buf st = Inr st'" and "sorterState st' = CHECK_TLV_TYPE"
  shows "currentDatap st' =
     currentDatap st + (if platform (hdr st') AND 0xFFFF = 0x1443 then 28 else 32)"
proof -
  from assms obtain st1 st2 st3 where
    r1: "read_version_len_platform buf st = Inr st1" and
    r2: "read_frame_fields buf st1 = Inr st2" and
    r3: "read_subFrameNumber buf st2 = Inr st3" and
    st': "st' = st3\<lparr>sorterState := CHECK_TLV_TYPE\<rparr>"
    by (auto simp: read_header_def ebind_Inr split: if_splits)
  from read_version_len_platform_cursor[OF r1] read_frame_fields_cursor[OF r2]
    read_subFrameNumber_cursor[OF r3] st'
  show ?thesis by simp
qed

subsection \<open>Reads at or after the end of the buffer\<close>

text \<open>
  With the cursor at or after the end of the buffer, reading the next TLV
  header or the detected objects throws; and a cloud without points is read
  out of bounds.
\<close>

lemma check_tlv_type_overrun:
  assumes "tlvCount st < 2 ^ 31 - 1"
    and "(word_of_int (tlvCount st) :: 32 word) < numTLVs (hdr st)"
    and "length buf \<le> unat (currentDatap st)"
  shows "check_tlv_type buf st = Inl OutOfRange"
proof -
  from assms(2) have "\<not> numTLVs (hdr st) \<le> word_of_int (tlvCount st)" by simp
  with assms(1,3) show ?thesis
    by (simp add: check_tlv_type_def get_u32_def memcpy_at_def ebind_def Let_def)
qed

lemma decode_objects_overrun:
  "length buf \<le> unat (currentDatap st) \<Longrightarrow> decode_objects cfg buf st = Inl OutOfRange"
  by (simp add: decode_objects_def get_u16_def memcpy_at_def ebind_def)

lemma read_obj_struct_no_point:
  "decode_objects cfg buf st = Inr st' \<Longrightarrow> RScan_points st' = [] \<Longrightarrow>
   read_obj_struct cfg buf st = Inl PointIndexOutOfBounds"
  by (simp add: read_obj_struct_def ebind_def)

subsection \<open>The magic word\<close>

lemma length_filter_all: "length (filter P xs) = length xs \<longleftrightarrow> (\<forall>a\<in>set xs. P a)"
proof -
  have "length (filter P xs) + length (filter (\<lambda>a. \<not> P a) xs) = length xs"
    by (rule sum_length_filter_compl)
  then have "length (filter P xs) = length xs \<longleftrightarrow> filter (\<lambda>a. \<not> P a) xs = []"
    by auto
  then show ?thesis by (simp add: filter_empty_conv)
qed

lemma isMagicWord_iff:
  assumes "length w = 8" and "length mw = 8"
  shows "isMagicWord mw w \<longleftrightarrow> w = mw"
proof -
  have "isMagicWord mw w \<longleftrightarrow> length (filter (\<lambda>i. w ! i = mw ! i) [0..<8]) = length [0..<8]"
    by (simp add: isMagicWord_def)
  also have "\<dots> \<longleftrightarrow> (\<forall>i<8. w ! i = mw ! i)"
    by (simp only: length_filter_all) auto
  also have "\<dots> \<longleftrightarrow> w = mw"
    using assms by (auto simp: list_eq_iff_nth_eq)
  finally show ?thesis .
qed

lemma replicate_8: "replicate 8 a = [a, a, a, a, a, a, a, a]"
  by (simp add: numeral_eq_Suc)

lemmas reader_eval = readIncomingData_def shift_in_def isMagicWord_iff replicate_8

lemma readIncomingData_one_point:
  "readIncomingData magicWord_demo serial_one_point = [frame_one_point]"
  by (simp add: reader_eval serial_one_point_def magicWord_demo_def frame_one_point_def)

lemma length_shift_in: "length w = 8 \<Longrightarrow> length (shift_in w r) = 8"
  by (simp add: shift_in_def)

lemma shift_in_Some: "length w = 8 \<Longrightarrow> shift_in w (Some b) = drop 1 (w @ [b])"
  by (cases w) (simp_all add: shift_in_def)

lemma window_after:
  "length w = 8 \<Longrightarrow> foldl shift_in w (map Some bs) = drop (length bs) (w @ bs)"
proof (induction bs arbitrary: w)
  case Nil
  then show ?case by simp
next
  case (Cons b bs)
  from Cons.prems obtain a w' where w: "w = a # w'" by (cases w) auto
  have "foldl shift_in w (map Some (b # bs)) = foldl shift_in (shift_in w (Some b)) (map Some bs)"
    by simp
  also have "\<dots> = drop (length bs) (shift_in w (Some b) @ bs)"
    using Cons.prems by (intro Cons.IH length_shift_in)
  also have "\<dots> = drop (length (b # bs)) (w @ b # bs)"
    using Cons.prems by (simp add: shift_in_Some w)
  finally show ?case .
qed

lemma resync_hit: "isMagicWord mw w \<Longrightarrow> resync mw w s = Some (w, s)"
  by (cases s) simp_all

lemma resync_skip:
  "(\<forall>k<length bs. \<not> isMagicWord mw (foldl shift_in w (map Some (take k bs)))) \<Longrightarrow>
   resync mw w (map Some bs @ s) = resync mw (foldl shift_in w (map Some bs)) s"
proof (induction bs arbitrary: w)
  case Nil
  then show ?case by simp
next
  case (Cons b bs)
  from Cons.prems have "\<not> isMagicWord mw (foldl shift_in w (map Some (take 0 (b # bs))))"
    by blast
  then have miss: "\<not> isMagicWord mw w" by simp
  have "\<forall>k<length bs. \<not> isMagicWord mw (foldl shift_in (shift_in w (Some b)) (map Some (take k bs)))"
  proof (intro allI impI)
    fix k assume "k < length bs"
    then have "Suc k < length (b # bs)" by simp
    with Cons.prems have "\<not> isMagicWord mw (foldl shift_in w (map Some (take (Suc k) (b # bs))))"
      by blast
    then show "\<not> isMagicWord mw (foldl shift_in (shift_in w (Some b)) (map Some (take k bs)))"
      by simp
  qed
  from Cons.IH[OF this] miss show ?case by simp
qed

lemma resync_garbage:
  assumes len: "length mw = 8" and nz: "mw ! 0 \<noteq> 0"
    and first: "\<forall>i<length g. take 8 (drop i (g @ mw)) \<noteq> mw"
  shows "resync mw (replicate 8 0) (map Some (g @ mw) @ s) = Some (mw, s)"
proof -
  let ?z = "replicate 8 (0 :: byte)"
  have win: "foldl shift_in ?z (map Some bs) = drop (length bs) (?z @ bs)" for bs
    by (rule window_after) simp
  have miss: "\<forall>k<length (g @ mw). \<not> isMagicWord mw (foldl shift_in ?z (map Some (take k (g @ mw))))"
  proof (intro allI impI)
    fix k assume k: "k < length (g @ mw)"
    let ?w = "drop k (?z @ take k (g @ mw))"
    have lw: "length ?w = 8" using k by simp
    have "?w \<noteq> mw"
    proof (cases "k < 8")
      case True
      then have "?w ! 0 = 0" using k by (simp add: nth_append)
      with nz show ?thesis by auto
    next
      case False
      then have "?w = drop (k - 8) (take k (g @ mw))" by simp
      also have "\<dots> = take (k - (k - 8)) (drop (k - 8) (g @ mw))"
        by (simp only: drop_take)
      also have "k - (k - 8) = 8"
        using False by simp
      finally have "?w = take 8 (drop (k - 8) (g @ mw))" .
      moreover from k False len have "k - 8 < length g" by simp
      ultimately show ?thesis using first by simp
    qed
    with lw len have "\<not> isMagicWord mw ?w" by (simp add: isMagicWord_iff)
    moreover have "length (take k (g @ mw)) = k" using k by simp
    ultimately show "\<not> isMagicWord mw (foldl shift_in ?z (map Some (take k (g @ mw))))"
      by (simp only: win not_False_eq_True)
  qed
  have "foldl shift_in ?z (map Some (g @ mw)) = mw"
    using len by (simp only: win) simp
  moreover have "isMagicWord mw mw" using len by (simp add: isMagicWord_iff)
  ultimately show ?thesis
    using resync_skip[OF miss, of s] by (simp add: resync_hit)
qed

subsection \<open>The barrier without spurious wakeups\<close>

text \<open>
  The invariant holds at the start and every step other than a spurious wakeup
  keeps it; so it holds after every schedule without spurious wakeups. It
  bounds the counter and makes it 2 where the pointers are exchanged.
\<close>

lemma barrier_inv_init: "barrier_inv threads_init"
  by (simp add: barrier_inv_def threads_init_def)





lemma sorter_counted_started: "sorter_counted p \<Longrightarrow> \<not> sorter_unstarted p"
  by (cases p) simp_all

lemma sorter_counted_waiting: "sorter_counted p \<Longrightarrow> \<not> sorter_holds p \<Longrightarrow> p = S_waiting"
  by (cases p) simp_all

lemma reader_counted_waiting: "reader_counted p \<Longrightarrow> \<not> reader_holds p \<Longrightarrow> p = R_waiting"
  by (cases p) simp_all

lemma sorter_unstarted_free:
  "sorter_unstarted p \<Longrightarrow> \<not> sorter_holds p \<Longrightarrow> p = S_first_lock_count \<or> p = S_first_waiting"
  by (cases p) simp_all

lemma phase_Signalling_sort: "phase p = Signalling_sort \<longleftrightarrow> p = W_signal_sort"
  by (cases p) simp_all

lemma phase_Signalling_read: "phase p = Signalling_read \<longleftrightarrow> p = W_signal_read"
  by (cases p) simp_all

lemma barrier_inv_reader_next:
  "barrier_inv s \<Longrightarrow> pred_option barrier_inv (reader_next s)"
  apply (cases "reader_at s"; cases "phase (swap_at s)")
  apply (auto simp: barrier_inv_def reader_next_def signal_countSync_max_def COUNT_SYNC_MAX_def
      dest: sorter_counted_started sorter_counted_waiting)
  done

lemma barrier_inv_reader_magicWord:
  "barrier_inv s \<Longrightarrow> pred_option barrier_inv (reader_magicWord s)"
  apply (cases "reader_at s"; cases "phase (swap_at s)")
  apply (auto simp: barrier_inv_def reader_magicWord_def)
  done

lemma barrier_inv_sorter_next:
  "barrier_inv s \<Longrightarrow> pred_option barrier_inv (sorter_next s)"
  apply (cases "sorter_at s"; cases "phase (swap_at s)")
  apply (auto simp: barrier_inv_def sorter_next_def signal_countSync_max_def COUNT_SYNC_MAX_def
      phase_Signalling_sort phase_Signalling_read
      dest: reader_counted_waiting)
  done

lemma barrier_inv_sorter_drained:
  "barrier_inv s \<Longrightarrow> pred_option barrier_inv (sorter_drained s)"
  apply (cases "sorter_at s"; cases "phase (swap_at s)")
  apply (auto simp: barrier_inv_def sorter_drained_def)
  done

lemma barrier_inv_syncedBufferSwap:
  "barrier_inv s \<Longrightarrow> pred_option barrier_inv (syncedBufferSwap s)"
  apply (cases "swap_at s")
  apply (auto simp: barrier_inv_def syncedBufferSwap_def signal_sort_go_def signal_read_go_def COUNT_SYNC_MAX_def
      dest: sorter_unstarted_free sorter_counted_waiting reader_counted_waiting)
  done

lemma barrier_inv_perform:
  assumes "barrier_inv s" and "\<not> spurious a" and "perform a s = Some s'"
  shows "barrier_inv s'"
proof (cases a)
  case Reader_next
  with assms barrier_inv_reader_next[of s] show ?thesis by simp
next
  case Reader_magicWord
  with assms barrier_inv_reader_magicWord[of s] show ?thesis by simp
next
  case Sorter_next
  with assms barrier_inv_sorter_next[of s] show ?thesis by simp
next
  case Sorter_drained
  with assms barrier_inv_sorter_drained[of s] show ?thesis by simp
next
  case Swap_next
  with assms barrier_inv_syncedBufferSwap[of s] show ?thesis by simp
next
  case (Spurious_wakeup t)
  with assms show ?thesis by simp
qed

lemma barrier_inv_schedule:
  "barrier_inv s \<Longrightarrow> \<forall>a\<in>set as. \<not> spurious a \<Longrightarrow> schedule as s = Some s' \<Longrightarrow> barrier_inv s'"
proof (induction as arbitrary: s)
  case Nil
  then show ?case by simp
next
  case (Cons a as)
  from Cons.prems(3) obtain s1 where a: "perform a s = Some s1" and r: "schedule as s1 = Some s'"
    by (auto split: option.splits)
  from Cons.prems(1,2) a have "barrier_inv s1"
    by (auto intro: barrier_inv_perform)
  with Cons.IH r Cons.prems(2) show ?case by simp
qed

lemma barrier_inv_exchange:
  assumes "barrier_inv s"
  shows "(swap_at s = W_exchange \<longrightarrow> countSync s = 2) \<and> 0 \<le> countSync s \<and> countSync s \<le> 2"
  using assms by (cases "phase (swap_at s)") (auto simp: barrier_inv_def)

lemma barrier_without_spurious_wakeup:
  assumes "schedule as threads_init = Some s" and "\<forall>a\<in>set as. \<not> spurious a"
  shows "(swap_at s = W_exchange \<longrightarrow> countSync s = 2) \<and> 0 \<le> countSync s \<and> countSync s \<le> 2"
  using barrier_inv_schedule[OF barrier_inv_init assms(2,1)] by (rule barrier_inv_exchange)

lemma exchange_then_reset_and_signals:
  assumes "swap_at s = W_exchange"
  shows "schedule [Swap_next, Swap_next, Swap_next, Swap_next, Swap_next, Swap_next] s =
     Some ((signal_read_go
             ((signal_sort_go
                (s\<lparr>currentBufp := nextBufp s, nextBufp := currentBufp s,
                   currentBufp_mutex := None, nextBufp_mutex := None, countSync := 0,
                   swap_at := W_signal_sort\<rparr>))
              \<lparr>swap_at := W_signal_read\<rparr>))
           \<lparr>swap_at := W_test\<rparr>)"
  using assms
  by (simp add: syncedBufferSwap_def signal_sort_go_def signal_read_go_def)

subsection \<open>Evaluating the examples\<close>

lemmas sorter_eval =
  drain.simps sorter_step_def read_header_def read_version_len_platform_def
  read_frame_fields_def read_subFrameNumber_def headerSize_def get_u32_def get_u16_def
  memcpy_at_def ebind_def sorter_init_def check_tlv_type_def tlv_dispatch_def skip_payload_def
  MMWDEMO_OUTPUT_MSG_NULL_def MMWDEMO_OUTPUT_MSG_DETECTED_POINTS_def
  MMWDEMO_OUTPUT_MSG_RANGE_PROFILE_def MMWDEMO_OUTPUT_MSG_NOISE_PROFILE_def
  MMWDEMO_OUTPUT_MSG_AZIMUTH_STATIC_HEAT_MAP_def MMWDEMO_OUTPUT_MSG_RANGE_DOPPLER_HEAT_MAP_def
  MMWDEMO_OUTPUT_MSG_STATS_def MMWDEMO_OUTPUT_MSG_MAX_def
  read_obj_struct_def decode_objects_def obj_loop.simps read_obj_def pow2_int_def convert_obj_def
  raw16_def qformat_to_float_def keep_point_def elevationRatio_def azimuthRatio_def
  maxElevationAngleRatioSquared_def maxAzimuthAngleRatio_def
  fl32_eval
  resize_def default_point_def RScan_def swap_buffers_def Let_def

lemmas threads_eval =
  reader_next_def reader_magicWord_def sorter_next_def sorter_drained_def syncedBufferSwap_def
  spurious_wakeup_def signal_countSync_max_def signal_read_go_def signal_sort_go_def
  COUNT_SYNC_MAX_def threads_init_def

lemma read_header_tlv8: "read_header frame_tlv8 sorter_init = Inr sorter_after_header"
  by (simp add: sorter_eval frame_tlv8_def sorter_after_header_def)

lemma read_header_tlv_max: "read_header frame_tlv_max sorter_init = Inr sorter_after_header"
  by (simp add: sorter_eval frame_tlv_max_def sorter_after_header_def)

lemma published_one_point_45:
  "published cfg_45 magicWord_demo serial_one_point = [cloud_one_point]"
proof -
  have "readIncomingData magicWord_demo serial_one_point = [frame_one_point]"
    by (simp add: reader_eval serial_one_point_def magicWord_demo_def frame_one_point_def)
  then show ?thesis
    by (simp add: published_def sorter_eval frame_one_point_def cfg_45_def tan_45
        cloud_one_point_def point_ahead_def)
qed

lemma published_steep_45:
  "published cfg_45 magicWord_demo serial_steep = [cloud_steep]"
proof -
  have "readIncomingData magicWord_demo serial_steep = [frame_steep]"
    by (simp add: reader_eval serial_steep_def magicWord_demo_def frame_steep_def)
  then show ?thesis
    by (simp add: published_def sorter_eval frame_steep_def cfg_45_def tan_45
        cloud_steep_def point_steep_def)
qed

section \<open>The claims\<close>

text \<open>
  Claim C1. For every detected-object record decoded in \<^verbatim>\<open>READ_OBJ_STRUCT\<close>, the
  Cartesian coordinates before the axis remap are the raw 16-bit fields read as
  signed and divided by \<open>2 ^ xyzQFormat\<close>.

  The code computes \<^verbatim>\<open>(rangeIdx + data[j] * 65536) / xyzQFormat\<close> instead
  (line 497). On the record of scenario 2 of the spec (\<open>xyzQFormat = 8\<close>) the
  coordinates before the remap should be \<open>(0, 1, 0)\<close>, that is the point
  \<open>(1, 0, 0)\<close> after it; the code yields the point below. Every value involved
  is an integer below \<open>2 ^ 25\<close> that is even once it exceeds \<open>2 ^ 24\<close>, or such an
  integer divided by 256, so no rounding of binary32 changes a value here.
\<close>

theorem qformat_mixes_rangeIdx:
  "map_sum id (\<lambda>p. (x p, y p, z p)) (read_obj cfg obj_scenario2 8 0)
     = Inr (65536 + 10 / 256, - (10 / 256), 10 / 256) \<and>
   (real_of_int (sint (0 :: 16 word)) / 2 ^ 8,
    real_of_int (sint (256 :: 16 word)) / 2 ^ 8,
    real_of_int (sint (0 :: 16 word)) / 2 ^ 8) = (0, 1, 0)"
  by (simp add: sorter_eval obj_scenario2_def)

text \<open>
  Claim C2, as amended. For every drained frame, with the Sorter at the start
  of \<^verbatim>\<open>READ_HEADER\<close>: a frame of fewer than 12 bytes, or of fewer bytes than the
  header size its version and platform call for, sends the Sorter to
  \<^verbatim>\<open>SWAP_BUFFERS\<close> whatever its \<^verbatim>\<open>totalPacketLen\<close>, and no cloud is published for it.
  A frame that holds the header (and 32 bytes when the platform is not the
  XWR1443, since the Sorter then reads \<^verbatim>\<open>subFrameNumber\<close>) sends the Sorter to
  \<^verbatim>\<open>SWAP_BUFFERS\<close>, with no cloud published for it, when \<^verbatim>\<open>totalPacketLen\<close> differs
  from the size of the buffer minus 4, and to \<^verbatim>\<open>CHECK_TLV_TYPE\<close> when they are equal.
\<close>

theorem read_header_length_check:
  assumes "sorterState st = READ_HEADER" and "currentDatap st = 0"
  shows "(length buf < 12 \<or> length buf < unat (headerSize (frame_u32 buf 0) (frame_u32 buf 8)) \<longrightarrow>
           (\<exists>st'. drain cfg buf st = ([], Inr st') \<and> sorterState st' = SWAP_BUFFERS)) \<and>
         (unat (headerSize (frame_u32 buf 0) (frame_u32 buf 8)) \<le> length buf \<and>
          (frame_u32 buf 8 AND 0xFFFF \<noteq> 0x1443 \<longrightarrow> 32 \<le> length buf) \<longrightarrow>
            (unat (frame_u32 buf 4) \<noteq> length buf - 4 \<longrightarrow>
               (\<exists>st'. read_header buf st = Inr st' \<and> sorterState st' = SWAP_BUFFERS \<and>
                      drain cfg buf st = ([], Inr st'))) \<and>
            (unat (frame_u32 buf 4) = length buf - 4 \<longrightarrow>
               (\<exists>st'. read_header buf st = Inr st' \<and> sorterState st' = CHECK_TLV_TYPE)))"
proof (intro conjI impI)
  assume "length buf < 12 \<or> length buf < unat (headerSize (frame_u32 buf 0) (frame_u32 buf 8))"
  from read_header_short[OF assms(2) this] drain_header_swap[OF assms(1)]
  show "\<exists>st'. drain cfg buf st = ([], Inr st') \<and> sorterState st' = SWAP_BUFFERS"
    by blast
next
  assume h: "unat (headerSize (frame_u32 buf 0) (frame_u32 buf 8)) \<le> length buf \<and>
          (frame_u32 buf 8 AND 0xFFFF \<noteq> 0x1443 \<longrightarrow> 32 \<le> length buf)"
    and ne: "unat (frame_u32 buf 4) \<noteq> length buf - 4"
  from h read_header_complete[OF assms(2), of buf] ne obtain st' where
    "read_header buf st = Inr st'" "sorterState st' = SWAP_BUFFERS"
    by auto
  with drain_header_swap[OF assms(1)]
  show "\<exists>st'. read_header buf st = Inr st' \<and> sorterState st' = SWAP_BUFFERS \<and>
             drain cfg buf st = ([], Inr st')"
    by blast
next
  assume h: "unat (headerSize (frame_u32 buf 0) (frame_u32 buf 8)) \<le> length buf \<and>
          (frame_u32 buf 8 AND 0xFFFF \<noteq> 0x1443 \<longrightarrow> 32 \<le> length buf)"
    and eq: "unat (frame_u32 buf 4) = length buf - 4"
  from h read_header_complete[OF assms(2), of buf] eq
  show "\<exists>st'. read_header buf st = Inr st' \<and> sorterState st' = CHECK_TLV_TYPE"
    by auto
qed

text \<open>
  The witness for C2: the three cases on \<open>short_frame\<close>, \<open>frame_wrong_length\<close>
  and \<open>frame_one_point\<close>.
\<close>

theorem read_header_length_check_witness:
  "(\<exists>st'. drain cfg_45 short_frame sorter_init = ([], Inr st') \<and> sorterState st' = SWAP_BUFFERS) \<and>
   (\<exists>st'. read_header frame_wrong_length sorter_init = Inr st' \<and> sorterState st' = SWAP_BUFFERS \<and>
          drain cfg_45 frame_wrong_length sorter_init = ([], Inr st')) \<and>
   (\<exists>st'. read_header frame_one_point sorter_init = Inr st' \<and> sorterState st' = CHECK_TLV_TYPE)"
proof -
  have s: "sorterState sorter_init = READ_HEADER" "currentDatap sorter_init = 0"
    by (simp_all add: sorter_init_def)
  note t = read_header_length_check[OF s]
  from t[of short_frame cfg_45]
  have a: "\<exists>st'. drain cfg_45 short_frame sorter_init = ([], Inr st') \<and> sorterState st' = SWAP_BUFFERS"
    by (simp add: short_frame_def frame_u32_def headerSize_def)
  from t[of frame_wrong_length cfg_45]
  have b: "\<exists>st'. read_header frame_wrong_length sorter_init = Inr st' \<and>
       sorterState st' = SWAP_BUFFERS \<and> drain cfg_45 frame_wrong_length sorter_init = ([], Inr st')"
    by (simp add: frame_wrong_length_def frame_u32_def headerSize_def)
  from t[of frame_one_point cfg_45]
  have c: "\<exists>st'. read_header frame_one_point sorter_init = Inr st' \<and> sorterState st' = CHECK_TLV_TYPE"
    by (simp add: frame_one_point_def frame_u32_def headerSize_def)
  from a b c show ?thesis by blast
qed

text \<open>
  The counterexample to C2 as it was stated: \<open>short_frame\<close> has 16 bytes and its
  \<^verbatim>\<open>totalPacketLen\<close> is 12, the size minus 4, yet the Sorter goes to
  \<^verbatim>\<open>SWAP_BUFFERS\<close>, not to \<^verbatim>\<open>CHECK_TLV_TYPE\<close>: the buffer is shorter than the header
  (lines 361-365).
\<close>

theorem short_frame_with_matching_length_is_dropped:
  "unat (frame_u32 short_frame 4) = length short_frame - 4 \<and>
   map_sum id sorterState (read_header short_frame sorter_init) = Inr SWAP_BUFFERS"
  by (simp add: sorter_eval short_frame_def frame_u32_def)

text \<open>
  Claim C3. The Sorter consumes 28 header bytes and does not read
  \<^verbatim>\<open>subFrameNumber\<close> when the SDK major or minor version is below 1 or the platform
  is the XWR1443, and 32 bytes otherwise: \<^verbatim>\<open>subFrameNumber\<close> is read exactly when
  the header size is 32.

  The code reads \<^verbatim>\<open>subFrameNumber\<close> whenever the platform is not the XWR1443
  (line 384), whatever the SDK version. On \<open>frame_old_sdk\<close> the header size is 28,
  yet the cursor ends at 32 and \<^verbatim>\<open>subFrameNumber\<close> holds the type of the first TLV.
\<close>

theorem subFrameNumber_read_with_28_byte_header:
  "headerSize 0 0x1642 = 28 \<and>
   map_sum id
     (\<lambda>st. (sorterState st, currentDatap st, version (hdr st), platform (hdr st),
            subFrameNumber (hdr st)))
     (read_header frame_old_sdk sorter_init)
     = Inr (CHECK_TLV_TYPE, 32, 0, 0x1642, 6)"
  by (simp add: sorter_eval frame_old_sdk_def)

text \<open>
  Claim C4, as amended. For every TLV the Sorter reads in \<^verbatim>\<open>CHECK_TLV_TYPE\<close>: if its
  type field is \<^verbatim>\<open>MMWDEMO_OUTPUT_MSG_MAX\<close>, the Sorter goes to \<^verbatim>\<open>READ_HEADER\<close>; if it
  is any other value that is not one of 0 to 6, the Sorter stays in
  \<^verbatim>\<open>CHECK_TLV_TYPE\<close> (the \<^verbatim>\<open>default\<close> of the switch), with the cursor after the
  8-byte TLV header. The cursor is there in the first case too, and one more
  TLV is counted.
\<close>

theorem check_tlv_type_unknown:
  assumes "sorterState st = CHECK_TLV_TYPE"
    and "(word_of_int (tlvCount st) :: 32 word) < numTLVs (hdr st)"
    and "check_tlv_type buf st = Inr st'"
  shows "get_u32 buf (currentDatap st) = Inr (tlvType st') \<and>
     get_u32 buf (currentDatap st + 4) = Inr (tlvLen st') \<and>
     currentDatap st' = currentDatap st + 8 \<and>
     tlvCount st' = tlvCount st + 1 \<and>
     (tlvType st' = MMWDEMO_OUTPUT_MSG_MAX \<longrightarrow> sorterState st' = READ_HEADER) \<and>
     (MMWDEMO_OUTPUT_MSG_STATS < tlvType st' \<and> tlvType st' \<noteq> MMWDEMO_OUTPUT_MSG_MAX \<longrightarrow>
        sorterState st' = CHECK_TLV_TYPE)"
proof -
  from assms(2) have nge: "\<not> numTLVs (hdr st) \<le> word_of_int (tlvCount st)"
    by simp
  from assms(3) nge obtain ty len where
    ty: "get_u32 buf (currentDatap st) = Inr ty" and
    len: "get_u32 buf (currentDatap st + 4) = Inr len" and
    st': "st' = st\<lparr>tlvCount := tlvCount st + 1, tlvType := ty, tlvLen := len,
                   currentDatap := currentDatap st + 8,
                   sorterState := tlv_dispatch ty (sorterState st)\<rparr>"
    by (auto simp: check_tlv_type_def ebind_Inr Let_def split: if_splits)
  have "6 < ty \<Longrightarrow> ty \<noteq> 0 \<and> ty \<noteq> 1 \<and> ty \<noteq> 2 \<and> ty \<noteq> 3 \<and> ty \<noteq> 4 \<and> ty \<noteq> 5 \<and> ty \<noteq> 6"
    by auto
  with ty len st' assms(1) show ?thesis
    by (auto simp: tlv_dispatch_def MMWDEMO_OUTPUT_MSG_NULL_def
        MMWDEMO_OUTPUT_MSG_DETECTED_POINTS_def MMWDEMO_OUTPUT_MSG_RANGE_PROFILE_def
        MMWDEMO_OUTPUT_MSG_NOISE_PROFILE_def MMWDEMO_OUTPUT_MSG_AZIMUTH_STATIC_HEAT_MAP_def
        MMWDEMO_OUTPUT_MSG_RANGE_DOPPLER_HEAT_MAP_def MMWDEMO_OUTPUT_MSG_STATS_def
        MMWDEMO_OUTPUT_MSG_MAX_def)
qed

text \<open>
  The witness for C4: a TLV of type \<^verbatim>\<open>MMWDEMO_OUTPUT_MSG_MAX\<close> and one of type 8,
  each read with the cursor at 28 and leaving it at 36.
\<close>

theorem check_tlv_type_unknown_witness:
  "(\<exists>st'. check_tlv_type frame_tlv_max sorter_after_header = Inr st' \<and>
          tlvType st' = MMWDEMO_OUTPUT_MSG_MAX \<and> sorterState st' = READ_HEADER \<and>
          currentDatap st' = 36 \<and> tlvCount st' = 1) \<and>
   (\<exists>st'. check_tlv_type frame_tlv8 sorter_after_header = Inr st' \<and>
          tlvType st' = 8 \<and> sorterState st' = CHECK_TLV_TYPE \<and>
          currentDatap st' = 36 \<and> tlvCount st' = 1)"
proof -
  have s: "sorterState sorter_after_header = CHECK_TLV_TYPE"
    and n: "(word_of_int (tlvCount sorter_after_header) :: 32 word) < numTLVs (hdr sorter_after_header)"
    by (simp_all add: sorter_after_header_def sorter_init_def)
  obtain st7 where r7: "check_tlv_type frame_tlv_max sorter_after_header = Inr st7"
    by (simp add: sorter_eval sorter_after_header_def frame_tlv_max_def)
  obtain st8 where r8: "check_tlv_type frame_tlv8 sorter_after_header = Inr st8"
    by (simp add: sorter_eval sorter_after_header_def frame_tlv8_def)
  have g7: "get_u32 frame_tlv_max (currentDatap sorter_after_header) = Inr 7"
    by (simp add: sorter_eval sorter_after_header_def frame_tlv_max_def)
  have g8: "get_u32 frame_tlv8 (currentDatap sorter_after_header) = Inr 8"
    by (simp add: sorter_eval sorter_after_header_def frame_tlv8_def)
  have c: "currentDatap sorter_after_header = 28" "tlvCount sorter_after_header = 0"
    by (simp_all add: sorter_after_header_def sorter_init_def)
  from check_tlv_type_unknown[OF s n r7] g7 c
  have "tlvType st7 = MMWDEMO_OUTPUT_MSG_MAX \<and> sorterState st7 = READ_HEADER \<and>
        currentDatap st7 = 36 \<and> tlvCount st7 = 1"
    by (simp add: MMWDEMO_OUTPUT_MSG_MAX_def)
  moreover from check_tlv_type_unknown[OF s n r8] g8 c
  have "tlvType st8 = 8 \<and> sorterState st8 = CHECK_TLV_TYPE \<and>
        currentDatap st8 = 36 \<and> tlvCount st8 = 1"
    by (simp add: MMWDEMO_OUTPUT_MSG_MAX_def MMWDEMO_OUTPUT_MSG_STATS_def)
  ultimately show ?thesis using r7 r8 by blast
qed

text \<open>
  The counterexample to C4 as it was stated: on \<open>frame_tlv8\<close> the Sorter reads a
  TLV of type 8, which is not one of 0 to 6, and stays in \<^verbatim>\<open>CHECK_TLV_TYPE\<close>, the
  cursor at 36.
\<close>

theorem tlv_type_8_stays_in_check_tlv_type:
  "ebind (read_header frame_tlv8 sorter_init) (\<lambda>st.
     ebind (check_tlv_type frame_tlv8 st) (\<lambda>st'.
       Inr (tlvType st', sorterState st', currentDatap st')))
     = Inr (8, CHECK_TLV_TYPE, 36)"
  by (simp add: sorter_eval frame_tlv8_def)

text \<open>
  Claim C5, as amended. Every point \<open>p\<close> of every published cloud has \<open>x p \<noteq> 0\<close>
  and passes the angle filter as the code evaluates it, in single precision.
  When the elevation filter is on (the maximal angle is at least 0 and below
  90 degrees), the binary32 value of \<^verbatim>\<open>z * z / (x * x + y * y)\<close>, each of the five
  operations rounded, is below the stored ratio, which is the binary32 square
  of the binary32 value of the tangent that the library returned. When the
  azimuth filter is on (the angle is in the same range and the stored ratio is
  not the \<open>- 1\<close> that switches the filter off), the binary32 value of
  \<^verbatim>\<open>fabs(y / x)\<close> is below the stored ratio, the binary32 value of the tangent.
  The clouds are those published for any configuration, any tangent of the
  library, any magic word and any serial input.
\<close>

theorem published_points_pass_filter:
  assumes "c \<in> set (published cfg mw input)" and "p \<in> set (points c)"
  shows "x p \<noteq> 0 \<and>
     (0 \<le> maxAllowedElevationAngleDeg cfg \<and> maxAllowedElevationAngleDeg cfg < 90 \<longrightarrow>
        fl32 (fl32 (z p * z p) / fl32 (fl32 (x p * x p) + fl32 (y p * y p)))
          < fl32 (fl32 (tan_deg cfg (maxAllowedElevationAngleDeg cfg))
                  * fl32 (tan_deg cfg (maxAllowedElevationAngleDeg cfg)))) \<and>
     (0 \<le> maxAllowedAzimuthAngleDeg cfg \<and> maxAllowedAzimuthAngleDeg cfg < 90 \<and>
      fl32 (tan_deg cfg (maxAllowedAzimuthAngleDeg cfg)) \<noteq> - 1 \<longrightarrow>
        \<bar>fl32 (y p / x p)\<bar> < fl32 (tan_deg cfg (maxAllowedAzimuthAngleDeg cfg)))"
proof -
  from assms(1) obtain buf s s' where "read_obj_struct cfg buf s = Inr (s', c)"
    unfolding published_def by (blast dest: sortIncomingData_cloud)
  from read_obj_struct_cloud[OF this] assms(2)
  have "keep_point (maxElevationAngleRatioSquared cfg) (maxAzimuthAngleRatio cfg) p"
    by blast
  from keep_point_filter[OF this] show ?thesis
    by (simp add: elevationRatio_def azimuthRatio_def maxElevationAngleRatioSquared_def
        maxAzimuthAngleRatio_def Let_def)
qed

text \<open>
  The witness for C5: the point of \<open>frame_steep\<close>, both filters at 45 degrees.
  Both stored ratios are 1.
\<close>

theorem published_points_pass_filter_witness:
  "x point_steep \<noteq> 0 \<and>
   fl32 (fl32 (z point_steep * z point_steep)
         / fl32 (fl32 (x point_steep * x point_steep) + fl32 (y point_steep * y point_steep)))
     < fl32 (fl32 (tan_deg cfg_45 (maxAllowedElevationAngleDeg cfg_45))
             * fl32 (tan_deg cfg_45 (maxAllowedElevationAngleDeg cfg_45))) \<and>
   \<bar>fl32 (y point_steep / x point_steep)\<bar>
     < fl32 (tan_deg cfg_45 (maxAllowedAzimuthAngleDeg cfg_45)) \<and>
   fl32 (tan_deg cfg_45 45) = 1"
proof -
  have c: "cloud_steep \<in> set (published cfg_45 magicWord_demo serial_steep)"
    by (simp add: published_steep_45)
  have p: "point_steep \<in> set (points cloud_steep)"
    by (simp add: cloud_steep_def)
  have t: "fl32 (tan_deg cfg_45 45) = 1"
    by (simp add: cfg_45_def tan_45 fl32_eval Let_def)
  have e: "0 \<le> maxAllowedElevationAngleDeg cfg_45 \<and> maxAllowedElevationAngleDeg cfg_45 < 90"
    by (simp add: cfg_45_def)
  have a: "0 \<le> maxAllowedAzimuthAngleDeg cfg_45 \<and> maxAllowedAzimuthAngleDeg cfg_45 < 90 \<and>
      fl32 (tan_deg cfg_45 (maxAllowedAzimuthAngleDeg cfg_45)) \<noteq> - 1"
    using t by (simp add: cfg_45_def)
  from published_points_pass_filter[OF c p] e a t show ?thesis
    by blast
qed

text \<open>
  The counterexample to C5 as it was stated: with both filters at 45 degrees
  the cloud published for \<open>frame_steep\<close> holds \<open>point_steep\<close>, for which
  \<open>z\<^sup>2 / (x\<^sup>2 + y\<^sup>2)\<close> is \<open>68094450 / 68094449\<close>, above the square of the tangent
  of 45 degrees, which is 1. In binary32 the two squares and the sum are
  rounded and the quotient comes out as \<open>1 - 2 / 2 ^ 24\<close>, below the stored
  ratio 1: the code keeps the point.
\<close>

theorem steep_point_is_published:
  "published cfg_45 magicWord_demo serial_steep = [cloud_steep] \<and>
   points cloud_steep = [point_steep] \<and>
   maxAllowedElevationAngleDeg cfg_45 = 45 \<and>
   (z point_steep)\<^sup>2 / ((x point_steep)\<^sup>2 + (y point_steep)\<^sup>2) = 68094450 / 68094449 \<and>
   \<not> (z point_steep)\<^sup>2 / ((x point_steep)\<^sup>2 + (y point_steep)\<^sup>2)
       < (tan (real_of_int (maxAllowedElevationAngleDeg cfg_45) * pi / 180))\<^sup>2 \<and>
   elevationRatio point_steep = 1 - 2 / 2 ^ 24 \<and>
   maxElevationAngleRatioSquared cfg_45 = 1"
proof -
  have r: "(z point_steep)\<^sup>2 / ((x point_steep)\<^sup>2 + (y point_steep)\<^sup>2) = 68094450 / 68094449"
    by (simp add: point_steep_def)
  have t: "(tan (real_of_int (maxAllowedElevationAngleDeg cfg_45) * pi / 180))\<^sup>2 = 1"
    by (simp add: cfg_45_def tan_45)
  have n: "\<not> (z point_steep)\<^sup>2 / ((x point_steep)\<^sup>2 + (y point_steep)\<^sup>2)
       < (tan (real_of_int (maxAllowedElevationAngleDeg cfg_45) * pi / 180))\<^sup>2"
    unfolding r t by simp
  have e: "elevationRatio point_steep = 1 - 2 / 2 ^ 24"
    by (simp add: elevationRatio_def point_steep_def fl32_eval Let_def)
  have m: "maxElevationAngleRatioSquared cfg_45 = 1"
    by (simp add: maxElevationAngleRatioSquared_def cfg_45_def tan_45 fl32_eval Let_def)
  have c: "points cloud_steep = [point_steep]"
    by (simp add: cloud_steep_def)
  have d: "maxAllowedElevationAngleDeg cfg_45 = 45"
    by (simp add: cfg_45_def)
  from published_steep_45 c d r n e m show ?thesis
    by blast
qed

text \<open>
  Claim C6, as amended. Every published cloud was decoded by \<^verbatim>\<open>READ_OBJ_STRUCT\<close>
  from a detected-objects payload in one of the drain buffers, and it has no
  more points than the \<^verbatim>\<open>numObj\<close> field of that payload (the 16-bit word at the
  cursor); its width is the number of its points.
\<close>

theorem cloud_bounded_by_payload_numObj:
  assumes "c \<in> set (published cfg mw input)"
  shows "\<exists>buf\<in>set (readIncomingData mw input). \<exists>st st' n0.
           sorterState st = READ_OBJ_STRUCT \<and> read_obj_struct cfg buf st = Inr (st', c) \<and>
           get_u16 buf (currentDatap st) = Inr n0 \<and>
           length (points c) \<le> unat n0 \<and> width c = length (points c)"
proof -
  from assms obtain buf s s' where buf: "buf \<in> set (readIncomingData mw input)"
    and s: "sorterState s = READ_OBJ_STRUCT" and r: "read_obj_struct cfg buf s = Inr (s', c)"
    unfolding published_def by (blast dest: sortIncomingData_cloud)
  from read_obj_struct_cloud[OF r] obtain n0 where
    "get_u16 buf (currentDatap s) = Inr n0" "length (points c) \<le> unat n0"
    "width c = length (points c)"
    by blast
  with buf s r show ?thesis by blast
qed

text \<open>The witness for C6: the cloud of \<open>frame_one_point\<close>.\<close>

theorem cloud_bounded_by_payload_numObj_witness:
  "\<exists>buf\<in>set (readIncomingData magicWord_demo serial_one_point). \<exists>st st' n0.
           sorterState st = READ_OBJ_STRUCT \<and> read_obj_struct cfg_45 buf st = Inr (st', cloud_one_point) \<and>
           get_u16 buf (currentDatap st) = Inr n0 \<and>
           length (points cloud_one_point) \<le> unat n0 \<and> width cloud_one_point = length (points cloud_one_point)"
proof -
  have c: "cloud_one_point \<in> set (published cfg_45 magicWord_demo serial_one_point)"
    by (simp add: published_one_point_45)
  from cloud_bounded_by_payload_numObj[OF c] show ?thesis .
qed

text \<open>
  The counterexample to C6 as it was stated: the header of \<open>frame_one_point\<close>
  declares \<^verbatim>\<open>numDetectedObj = 0\<close>, and the one cloud published for the frame has
  one point. The code never reads \<^verbatim>\<open>numDetectedObj\<close> again once it is stored.
\<close>

theorem cloud_exceeds_numDetectedObj:
  "map (\<lambda>c. length (points c)) (fst (drain cfg_unfiltered frame_one_point sorter_init)) = [1] \<and>
   map_sum id (\<lambda>st. numDetectedObj (hdr st))
     (snd (drain cfg_unfiltered frame_one_point sorter_init)) = Inr 0"
  by (simp add: sorter_eval frame_one_point_def cfg_unfiltered_def)

text \<open>
  Claim C7. For every drained frame in which the cursor would read past the end
  of the drain buffer, the Sorter falls back to \<^verbatim>\<open>SWAP_BUFFERS\<close>, discards the
  frame and publishes no partial cloud.

  The code only compares the size of the buffer with 12 and with the header
  size. After the header every read goes through \<^verbatim>\<open>currentBufp->at\<close>, which throws
  \<^verbatim>\<open>std::out_of_range\<close>, and nothing catches it. On \<open>frame_oversized_tlv\<close> the cursor
  is moved 1000 bytes on and the next read in \<^verbatim>\<open>CHECK_TLV_TYPE\<close> throws: the
  Sorter never reaches \<^verbatim>\<open>SWAP_BUFFERS\<close>.
\<close>

theorem oversized_tlv_throws_out_of_range:
  "drain cfg frame_oversized_tlv sorter_init = ([], Inl OutOfRange)"
  by (simp add: sorter_eval frame_oversized_tlv_def word_le_nat_alt)

text \<open>
  Claim C8. For every frame stream \<open>s\<close> and every finite sequence \<open>g\<close> of garbage
  bytes in front of the first magic word, the initial resynchronisation of the
  Reader consumes the garbage and the magic word and writes none of these bytes
  to the fill buffer (the main loop starts on \<open>s\<close> with the empty buffer), and
  the buffers handed to the Sorter and the clouds published are those of the
  frame stream alone. The magic word \<open>mw\<close> is a parameter: 8 bytes, the first
  of which is not 0 (the window starts as zeros). That \<open>g\<close> stands in front of
  the first magic word means that no magic word starts inside \<open>g\<close>.
\<close>

theorem resync_skips_garbage:
  assumes "length mw = 8" and "mw ! 0 \<noteq> 0"
    and "\<forall>i<length g. take 8 (drop i (g @ mw)) \<noteq> mw"
  shows "resync mw (replicate 8 0) (map Some (g @ mw) @ s) = Some (mw, s) \<and>
         readIncomingData mw (map Some (g @ mw) @ s) = read_loop mw mw [] s \<and>
         readIncomingData mw (map Some (g @ mw) @ s) = readIncomingData mw (map Some mw @ s) \<and>
         published cfg mw (map Some (g @ mw) @ s) = published cfg mw (map Some mw @ s)"
proof -
  have a: "resync mw (replicate 8 0) (map Some (g @ mw) @ s) = Some (mw, s)"
    using assms by (rule resync_garbage)
  have "\<forall>i<length ([] :: byte list). take 8 (drop i ([] @ mw)) \<noteq> mw" by simp
  from resync_garbage[OF assms(1,2) this, of s]
  have b: "resync mw (replicate 8 0) (map Some mw @ s) = Some (mw, s)" by simp
  from a b show ?thesis by (simp add: readIncomingData_def published_def)
qed

text \<open>
  The witness for C8: the garbage \<open>0xFF, 2, 1\<close> (which ends like the beginning
  of a magic word) in front of \<open>frame_one_point\<close>.
\<close>

theorem resync_skips_garbage_witness:
  "resync magicWord_demo (replicate 8 0) (map Some ([0xFF, 2, 1] @ magicWord_demo) @ map Some frame_one_point)
     = Some (magicWord_demo, map Some frame_one_point) \<and>
   readIncomingData magicWord_demo (map Some ([0xFF, 2, 1] @ magicWord_demo) @ map Some frame_one_point)
     = read_loop magicWord_demo magicWord_demo [] (map Some frame_one_point) \<and>
   readIncomingData magicWord_demo (map Some ([0xFF, 2, 1] @ magicWord_demo) @ map Some frame_one_point)
     = readIncomingData magicWord_demo (map Some magicWord_demo @ map Some frame_one_point) \<and>
   published cfg_45 magicWord_demo (map Some ([0xFF, 2, 1] @ magicWord_demo) @ map Some frame_one_point)
     = published cfg_45 magicWord_demo (map Some magicWord_demo @ map Some frame_one_point)"
proof -
  have l: "length magicWord_demo = 8" and n: "magicWord_demo ! 0 \<noteq> 0"
    by (simp_all add: magicWord_demo_def)
  have f: "\<forall>i<length [0xFF, 2, 1 :: byte]. take 8 (drop i ([0xFF, 2, 1] @ magicWord_demo)) \<noteq> magicWord_demo"
    by (simp add: magicWord_demo_def less_Suc_eq numeral_3_eq_3)
  from resync_skips_garbage[OF l n f] show ?thesis .
qed

text \<open>
  Claim C9. In every reachable state of the three threads the Swap thread
  exchanges the two buffer pointers only when \<^verbatim>\<open>countSync\<close> is 2, every exchange is
  followed by the reset of \<^verbatim>\<open>countSync\<close> and the two signals, and \<^verbatim>\<open>countSync\<close> stays
  in [0, 2].

  The exchange stands inside the loop \<^verbatim>\<open>while(countSync < COUNT_SYNC_MAX)\<close>, right
  after \<^verbatim>\<open>pthread_cond_wait\<close> (lines 269-290): the counter is tested before the wait
  and not after it. In the schedule \<open>early_exchange\<close> the wait returns with no
  signal while the Reader is still synchronising, and the Swap thread reaches
  the exchange with \<^verbatim>\<open>countSync = 0\<close>. It then resets the counter and wakes the
  Sorter, which counts once; the Reader's first frame boundary adds 2: in the
  schedule \<open>overcount\<close> the counter ends at 3.
\<close>

theorem exchange_after_spurious_wakeup:
  "map_option (\<lambda>s. (swap_at s, countSync s)) (schedule early_exchange threads_init)
     = Some (W_exchange, 0) \<and>
   map_option countSync (schedule overcount threads_init) = Some 3"
  by (simp add: overcount_def early_exchange_def threads_eval)

text \<open>
  Claim C10. For every detected-objects TLV processed in \<^verbatim>\<open>READ_OBJ_STRUCT\<close>, the
  read of the point at index 0 before publishing is within bounds: at least one
  point survives the filter in every frame that reaches the publish step.

  The log statement on lines 572-574 reads \<^verbatim>\<open>RScan->points[0]\<close> whatever the size
  of the vector. On \<open>frame_no_objects\<close> the decoding succeeds and leaves no
  point, so the read is out of bounds.
\<close>

theorem empty_cloud_reads_point_zero:
  "map_sum id RScan_points
     (ebind (read_header frame_no_objects sorter_init) (\<lambda>st.
      ebind (check_tlv_type frame_no_objects st) (decode_objects cfg frame_no_objects)))
     = Inr [] \<and>
   drain cfg frame_no_objects sorter_init = ([], Inl PointIndexOutOfBounds)"
  by (simp add: sorter_eval frame_no_objects_def)

end
